theory Spec2Isabelle
  imports
    Main
    "HOL-Library.Word"
    "HOL-Library.AList"
    "HOL-Library.Char_ord"
    "HOL-Library.List_Lexorder"
    "HOL-Library.Product_Lexorder"
    "HOL-Library.Sublist"
begin

section \<open>Python values, exceptions and the library calls the two commands use\<close>

text \<open>
  The two commands of the repository are \<^verbatim>\<open>velocyto/commands/_run.py\<close> (the single-sample
  pipeline \<^verbatim>\<open>_run\<close>, here \<open>run\<close>) and \<^verbatim>\<open>velocyto/commands/multi10x.py\<close> (the batch
  dispatcher \<^verbatim>\<open>multi10x\<close>). Every exception the code can raise is a value of \<open>error\<close>;
  every effect on the outside world is an \<open>event\<close>, recorded in the order in which it happens.
\<close>

datatype error =
    AssertionError
  | UnboundLocalError
  | IndexError
  | ValueError
  | NameError
  | TypeError
  | SystemExit int
  | OSError
  | FileExistsError
  | FileNotFoundError
  | NotADirectoryError

datatype level = DEBUG | ERROR | WARNING

text \<open>A scalar cell of an attribute array: the code stores strings and integers.\<close>

datatype pyval = PyStr string | PyInt int

datatype event =
    Log level string
  | Mkdir string
  | OpenRead string
  | OpenWrite string
  | Close string
  | MetadataLookup string string
  | NewExInCounter
  | ReadGenes string
  | ReadRepeats string
  | MarkUpIntrons string
  | Count string bool
  | Popen "string list" string
  | Sleep int

text \<open>The calls that make up the counting work: interval loading, intron markup, counting.\<close>

fun counting_work :: "event \<Rightarrow> bool" where
  "counting_work NewExInCounter = True"
| "counting_work (ReadGenes f) = True"
| "counting_work (ReadRepeats f) = True"
| "counting_work (MarkUpIntrons f) = True"
| "counting_work (Count f b) = True"
| "counting_work e = False"

subsection \<open>Strings and paths\<close>

text \<open>\<^verbatim>\<open>str(n)\<close> for a natural number and for an integer.\<close>

fun str_nat :: "nat \<Rightarrow> string" where
  "str_nat n = (if n < 10 then [char_of (48 + n)] else str_nat (n div 10) @ [char_of (48 + n mod 10)])"

declare str_nat.simps [simp del]

definition str_int :: "int \<Rightarrow> string" where
  "str_int i = (if i < 0 then ''-'' @ str_nat (nat (- i)) else str_nat (nat i))"

text \<open>
  A \<open>char\<close> stands for the Unicode code point of its number, so a \<open>string\<close> is a Python
  \<^verbatim>\<open>str\<close> of code points below 256. \<^verbatim>\<open>str.strip()\<close> removes, at both ends, the
  characters for which \<^verbatim>\<open>str.isspace\<close> holds: below 256 these are U+0009 to U+000D,
  U+001C to U+0020, U+0085 and U+00A0.
\<close>

definition is_space :: "char \<Rightarrow> bool" where
  "is_space c = ((of_char c :: nat) \<in> {9, 10, 11, 12, 13, 28, 29, 30, 31, 32, 133, 160})"

definition strip :: "string \<Rightarrow> string" where
  "strip s = rev (dropWhile is_space (rev (dropWhile is_space s)))"

text \<open>\<^verbatim>\<open>s.split(c)[0]\<close>: the text before the first separator.\<close>

definition split_first :: "char \<Rightarrow> string \<Rightarrow> string" where
  "split_first c s = takeWhile (\<lambda>x. x \<noteq> c) s"

text \<open>\<^verbatim>\<open>s.split("/")[-1]\<close> and \<^verbatim>\<open>os.path.basename\<close>: the text after the last slash.\<close>

definition split_last :: "char \<Rightarrow> string \<Rightarrow> string" where
  "split_last c s = rev (takeWhile (\<lambda>x. x \<noteq> c) (rev s))"

definition basename :: "string \<Rightarrow> string" where
  "basename p = split_last CHR ''/'' p"

text \<open>\<^verbatim>\<open>os.path.split(p)[0]\<close>: up to the last slash, trailing slashes removed unless
  the head is made of slashes only.\<close>

definition split_head :: "string \<Rightarrow> string" where
  "split_head p =
     (let h = rev (dropWhile (\<lambda>x. x \<noteq> CHR ''/'') (rev p))
      in if h \<noteq> [] \<and> \<not> list_all (\<lambda>x. x = CHR ''/'') h
         then rev (dropWhile (\<lambda>x. x = CHR ''/'') (rev h)) else h)"

text \<open>\<^verbatim>\<open>os.path.join(a, b)\<close> on POSIX paths.\<close>

definition path_join :: "string \<Rightarrow> string \<Rightarrow> string" where
  "path_join a b =
     (if b \<noteq> [] \<and> hd b = CHR ''/'' then b
      else if a = [] \<or> last a = CHR ''/'' then a @ b
      else a @ ''/'' @ b)"

text \<open>\<^verbatim>\<open>xs[:n]\<close> for a Python integer \<open>n\<close>: a negative bound counts from the end.\<close>

definition slice_to :: "'a list \<Rightarrow> int \<Rightarrow> 'a list" where
  "slice_to xs n = (if 0 \<le> n then take (nat n) xs else take (length xs - nat (- n)) xs)"

text \<open>\<^verbatim>\<open>sep.join(xs)\<close>.\<close>

fun join :: "string \<Rightarrow> string list \<Rightarrow> string" where
  "join sep [] = []"
| "join sep [x] = x"
| "join sep (x # y # ys) = x @ sep @ join sep (y # ys)"

subsection \<open>Dictionaries\<close>

text \<open>
  A Python \<^verbatim>\<open>dict\<close> is an association list in insertion order; \<^verbatim>\<open>d[k] = v\<close> is
  \<open>AList.update k v d\<close>, which replaces the value of a key already present where it
  stands and appends a new key at the end. \<^verbatim>\<open>d.update(e)\<close> stores the items of \<open>e\<close> in
  their order.
\<close>

definition dict_update :: "('k \<times> 'v) list \<Rightarrow> ('k \<times> 'v) list \<Rightarrow> ('k \<times> 'v) list" where
  "dict_update d e = fold (\<lambda>(k, v) acc. AList.update k v acc) e d"

text \<open>\<^verbatim>\<open>dict(pairs)\<close>.\<close>

definition dict_of :: "('k \<times> 'v) list \<Rightarrow> ('k \<times> 'v) list" where
  "dict_of ps = dict_update [] ps"

subsection \<open>Results with a trace of effects\<close>

type_synonym 'a result = "event list \<times> (error + 'a)"

definition ok :: "'a \<Rightarrow> 'a result" where
  "ok x = ([], Inr x)"

definition raise :: "error \<Rightarrow> 'a result" where
  "raise e = ([], Inl e)"

definition emit :: "event list \<Rightarrow> 'a result \<Rightarrow> 'a result" where
  "emit evs m = (evs @ fst m, snd m)"

text \<open>An external call: its event, then its value or its exception.\<close>

definition call :: "event \<Rightarrow> error + 'a \<Rightarrow> 'a result" where
  "call ev r = ([ev], r)"

definition and_then :: "'a result \<Rightarrow> ('a \<Rightarrow> 'b result) \<Rightarrow> 'b result" where
  "and_then m f =
     (case snd m of
        Inl e \<Rightarrow> (fst m, Inl e)
      | Inr x \<Rightarrow> (fst m @ fst (f x), snd (f x)))"

section \<open>The single-sample pipeline (\<^verbatim>\<open>_run\<close>)\<close>

subsection \<open>Data owned by the counting engine\<close>

text \<open>
  The counting engine (\<^verbatim>\<open>vcy.ExInCounter\<close>) and the metadata table
  (\<^verbatim>\<open>vcy.MetadataCollection\<close>) are outside the two source files. The pipeline reads the
  attributes below from their objects; the results of the methods of a gene
  (\<^verbatim>\<open>get_lastexon_counts()\<close>, \<^verbatim>\<open>get_lastexon_length()\<close>, \<^verbatim>\<open>get_tr_end()\<close>,
  \<^verbatim>\<open>get_deduced_tr_end()\<close>) are fields of the record.
\<close>

record interval =
  ivltype :: string
  ivl_start :: int
  ivl_end :: int
  is_sure_valid_intron :: bool

record gene =
  genename :: string
  geneid :: string
  chrom :: string
  strand :: string
  gene_start :: int
  gene_end :: int
  ivls :: "interval list"
  ivljunction5_read_counts :: "int list"
  ivlinside_read_counts :: "int list"
  ivljunction3_read_counts :: "int list"
  spliced_mol_counts :: "int list"
  unspliced_mol_counts :: "int list"
  ambiguous_mol_counts :: "int list"
  read_start_counts_from_locus_end :: "int list"
  lastexon_counts :: "int \<times> int"
  lastexon_length :: int
  tr_end :: int
  deduced_tr_end :: int

text \<open>
  The world around one run. \<open>'e\<close> is the state of the counting engine, of which the
  pipeline only knows the interface: the constructor, four methods that may raise, and the
  attributes \<^verbatim>\<open>genes\<close>, \<^verbatim>\<open>filter_mode\<close> and \<^verbatim>\<open>valid_bcs2idx\<close>.
  \<open>random_choice i\<close> is the index drawn by the \<open>i\<close>-th call of \<^verbatim>\<open>random.choice\<close>;
  \<open>metadata_where t f v\<close> is \<^verbatim>\<open>vcy.MetadataCollection(t).where(f, v)\<close>, each row given
  by its \<^verbatim>\<open>dict\<close>. Writing into the output folder is taken to succeed.
\<close>

record 'e env =
  random_choice :: "nat \<Rightarrow> nat"
  path_exists :: "string \<Rightarrow> bool"
  mkdir :: "string \<Rightarrow> error option"
  readlines :: "string \<Rightarrow> error + string list"
  metadata_where :: "string \<Rightarrow> string \<Rightarrow> string \<Rightarrow> error + (string \<times> pyval) list list"
  ExInCounter :: "(string \<times> nat) list \<Rightarrow> 'e"
  read_genes :: "'e \<Rightarrow> string \<Rightarrow> error + nat \<times> 'e"
  read_repeats :: "'e \<Rightarrow> string \<Rightarrow> error + nat \<times> 'e"
  mark_up_introns :: "'e \<Rightarrow> string \<Rightarrow> error + 'e"
  count :: "'e \<Rightarrow> string \<Rightarrow> bool \<Rightarrow> error + 'e"
  genes :: "'e \<Rightarrow> gene list"
  filter_mode :: "'e \<Rightarrow> bool"
  counter_valid_bcs2idx :: "'e \<Rightarrow> (string \<times> nat) list"

text \<open>The arguments of \<^verbatim>\<open>_run\<close>; \<open>None\<close> is Python's \<^verbatim>\<open>None\<close>.\<close>

record run_args =
  bamfile :: string
  ivlfile :: string
  bcfile :: "string option"
  outputfolder :: "string option"
  sampleid :: "string option"
  metadatatable :: "string option"
  repmask :: "string option"
  debug :: bool
  additional_ca :: "(string \<times> pyval list) list"

subsection \<open>Sample id and output folder (lines 21-22 and 39-49)\<close>

definition ascii_uppercase_digits :: string where
  "ascii_uppercase_digits = ''ABCDEFGHIJKLMNOPQRSTUVWXYZ0123456789''"

definition id_generator :: "(nat \<Rightarrow> nat) \<Rightarrow> nat \<Rightarrow> string" where
  "id_generator choice sz =
     map (\<lambda>i. ascii_uppercase_digits ! (choice i mod length ascii_uppercase_digits)) [0..<sz]"

definition resolve_sampleid :: "'e env \<Rightarrow> run_args \<Rightarrow> string result" where
  "resolve_sampleid env a =
     (case sampleid a of
        Some s \<Rightarrow> ok s
      | None \<Rightarrow>
          if metadatatable a \<noteq> None then raise AssertionError
          else
            let s = split_first CHR ''.'' (basename (bamfile a)) @ ''_''
                      @ id_generator (random_choice env) 5
            in emit [Log DEBUG (''No SAMPLEID specified, the sample will be called '' @ s)] (ok s))"

definition resolve_outputfolder :: "'e env \<Rightarrow> run_args \<Rightarrow> string result" where
  "resolve_outputfolder env a =
     and_then
       (case outputfolder a of
          Some d \<Rightarrow> ok d
        | None \<Rightarrow>
            let d = path_join (split_head (bamfile a)) ''velocyto''
            in emit [Log DEBUG (''No OUTPUTFOLDER specified, find output files inside '' @ d)] (ok d))
       (\<lambda>d. if path_exists env d then ok d
             else (case mkdir env d of
                     None \<Rightarrow> emit [Mkdir d] (ok d)
                   | Some e \<Rightarrow> emit [Mkdir d] (raise e)))"

subsection \<open>Barcodes from the barcode file (lines 51-59)\<close>

text \<open>The three local variables the barcode file binds; without a file they stay unbound.\<close>

record barcodes =
  valid_bcs_list :: "string list"
  valid_cellid_list :: "string list"
  valid_bcs2idx :: "(string \<times> nat) list"

definition read_barcodes :: "'e env \<Rightarrow> run_args \<Rightarrow> string \<Rightarrow> barcodes option result" where
  "read_barcodes env a sid =
     (case bcfile a of
        None \<Rightarrow>
          emit [Log DEBUG ''Cell barcodes will be determined while reading the .bam file'']
            (ok None)
      | Some f \<Rightarrow>
          and_then (call (OpenRead f) (readlines env f))
            (\<lambda>ls.
               let bcs = map strip ls;
                   cids = map (\<lambda>v_bc. sid @ '':'' @ v_bc) bcs;
                   idx = dict_of (map (\<lambda>(n, bc). (split_first CHR ''-'' bc, n)) (enumerate 0 bcs))
               in emit [Log DEBUG (''Read '' @ str_nat (length bcs) @ '' cell barcodes from '' @ f)]
                    (case bcs of
                       [] \<Rightarrow> raise IndexError
                     | bc0 # rest \<Rightarrow>
                         emit [Log DEBUG (''Example of barcode: '' @ split_first CHR ''-'' bc0
                                          @ '' and cell_id: '' @ hd cids)]
                           (ok (Some \<lparr>valid_bcs_list = bcs, valid_cellid_list = cids,
                                       valid_bcs2idx = idx\<rparr>)))))"

subsection \<open>Metadata from the sample sheet (lines 61-81)\<close>

text \<open>
  \<^verbatim>\<open>if metadatatable:\<close> is false for \<^verbatim>\<open>None\<close> and for the empty string. Inside the
  \<^verbatim>\<open>try\<close> only \<^verbatim>\<open>NameError\<close> and \<^verbatim>\<open>TypeError\<close> are caught; \<^verbatim>\<open>sys.exit(1)\<close> raises
  \<^verbatim>\<open>SystemExit\<close>, which is neither, and ends the run.
\<close>

definition get_metadata :: "'e env \<Rightarrow> run_args \<Rightarrow> string \<Rightarrow> (string \<times> pyval) list result" where
  "get_metadata env a sid =
     (case metadatatable a of
        None \<Rightarrow> ok []
      | Some t \<Rightarrow>
          if t = [] then ok []
          else
            emit [MetadataLookup t sid]
              (case metadata_where env t ''SampleID'' sid of
                 Inl e \<Rightarrow>
                   if e = NameError \<or> e = TypeError
                   then emit [Log WARNING
                          ''SAMPLEFILE was not specified. add -s SAMPLEFILE to add metadata.'']
                          (ok [])
                   else raise e
               | Inr sample \<Rightarrow>
                   if length sample = 0 then
                     emit [Log ERROR (''Sample ID '' @ sid @ '' not found in sample sheet''),
                           Log DEBUG (''Collecting column attributes from '' @ t)]
                       (ok [])
                   else if length sample > 1 then
                     emit [Log ERROR (''Sample ID '' @ sid @ '' has multiple lines in sample sheet'')]
                       (raise (SystemExit 1))
                   else
                     emit [Log DEBUG (''Collecting column attributes from '' @ t)]
                       (ok (hd sample))))"

subsection \<open>Counting (lines 83-114)\<close>

definition sam_files :: "string \<Rightarrow> string \<Rightarrow> string list" where
  "sam_files outf sid =
     map (\<lambda>n. path_join outf (sid @ n))
       [''_sure_introns.sam'', ''_sure_exon.sam'', ''_maybe_exon.sam'',
        ''_not_exon_not_intron.sam'', ''_chimeras.sam'']"

definition count_molecules :: "'e env \<Rightarrow> run_args \<Rightarrow> string \<Rightarrow> string \<Rightarrow> 'e \<Rightarrow> 'e result" where
  "count_molecules env a sid outf ex =
     (if debug a then
        emit (Log DEBUG ''Counting molecules and writing sam outputs...''
              # map OpenWrite (sam_files outf sid))
          (and_then (call (Count (bamfile a) True) (count env ex (bamfile a) True))
             (\<lambda>ex'. emit (map Close (take 4 (sam_files outf sid))) (ok ex')))
      else
        emit [Log DEBUG ''Counting molecules...'']
          (call (Count (bamfile a) False) (count env ex (bamfile a) False)))"

text \<open>
  Line 84 reads the local variable \<^verbatim>\<open>valid_bcs2idx\<close>, which only the barcode-file branch
  binds; \<open>run\<close> below raises \<^verbatim>\<open>UnboundLocalError\<close> there when it is unbound.
\<close>

definition run_counter :: "'e env \<Rightarrow> run_args \<Rightarrow> string \<Rightarrow> string \<Rightarrow> barcodes \<Rightarrow> 'e result" where
  "run_counter env a sid outf b =
     emit [NewExInCounter]
       (and_then (call (ReadGenes (ivlfile a))
                    (read_genes env (ExInCounter env (valid_bcs2idx b)) (ivlfile a)))
          (\<lambda>(n, ex1).
             emit [Log DEBUG (''Read '' @ str_nat n @ '' intervals for ''
                              @ str_nat (length (genes env ex1)) @ '' genes from '' @ ivlfile a)]
               (and_then
                  (case repmask a of
                     None \<Rightarrow> ok ex1
                   | Some r \<Rightarrow>
                       and_then (call (ReadRepeats r) (read_repeats env ex1 r))
                         (\<lambda>(m, ex2).
                            emit [Log DEBUG (''Read '' @ str_nat m
                                             @ '' repeat intervals to mask from '' @ r)]
                              (ok ex2)))
                  (\<lambda>ex2.
                     emit [Log DEBUG ''Marking up introns...'']
                       (and_then (call (MarkUpIntrons (bamfile a))
                                    (mark_up_introns env ex2 (bamfile a)))
                          (\<lambda>ex3. count_molecules env a sid outf ex3))))))"

subsection \<open>Barcodes from the counter's table (lines 116-120)\<close>

text \<open>
  \<^verbatim>\<open>sorted([(v, k) for k, v in d.items()])\<close> orders the pairs by index, then by barcode;
  \<^verbatim>\<open>list(zip(*pairs))[1]\<close> is the tuple of their barcodes and raises \<^verbatim>\<open>IndexError\<close>
  when the table is empty.
\<close>

definition final_barcodes :: "'e env \<Rightarrow> 'e \<Rightarrow> string \<Rightarrow> barcodes \<Rightarrow> barcodes result" where
  "final_barcodes env ex sid b =
     (if \<not> filter_mode env ex then
        let idx = counter_valid_bcs2idx env ex;
            pairs = sort (map (\<lambda>(k, v). (v, k)) idx)
        in (case pairs of
              [] \<Rightarrow> raise IndexError
            | p # ps \<Rightarrow>
                let bcs = map snd pairs;
                    cids = map (\<lambda>v_bc. sid @ '':'' @ v_bc @ ''-1'') bcs
                in emit [Log DEBUG (''Example of barcode: '' @ hd bcs
                                    @ '' and cell_id: '' @ hd cids)]
                     (ok \<lparr>valid_bcs_list = bcs, valid_cellid_list = cids, valid_bcs2idx = idx\<rparr>))
      else ok b)"

subsection \<open>Column attributes (lines 122-126)\<close>

definition column_attrs ::
  "string list \<Rightarrow> (string \<times> pyval list) list \<Rightarrow> (string \<times> pyval) list \<Rightarrow> (string \<times> pyval list) list" where
  "column_attrs cids add_ca sample =
     fold (\<lambda>(key, value) ca. AList.update key (replicate (length cids) value) ca) sample
       (dict_update [(''CellID'', map PyStr cids)] add_ca)"

subsection \<open>The last-exon table (lines 128-143)\<close>

definition tab :: string where
  "tab = [CHR 0x09]"

definition newline :: string where
  "newline = [CHR 0x0A]"

definition lastexon_header :: string where
  "lastexon_header =
     join tab [''GeneMame'', ''GeneID'', ''AnnotatedTrEnd'', ''DeducedTrEnd'', ''LastExonLen'',
               ''LastJunctionCount'', ''LastExonCount'',
               ''FromEndReadProfile(3'' @ [CHR 0x27] @ ''=>5'' @ [CHR 0x27] @ '')...'']
     @ newline"

definition lastexon_line :: "gene \<Rightarrow> string" where
  "lastexon_line g =
     (let lastjunction_count = fst (lastexon_counts g);
          lastexon_count = snd (lastexon_counts g);
          profile = slice_to (read_start_counts_from_locus_end g) (lastexon_length g);
          profile_str = join tab (map str_int profile)
      in join tab [genename g, geneid g, str_int (tr_end g), str_int (deduced_tr_end g),
                   str_int (lastexon_length g), str_int lastjunction_count,
                   str_int lastexon_count, profile_str]
         @ newline)"

subsection \<open>Structural statistics (lines 145-170)\<close>

text \<open>
  One group of the HDF5 file. \<^verbatim>\<open>ivls_type\<close> has dtype \<^verbatim>\<open>|S3\<close>, which keeps the first
  three bytes of a tag; \<^verbatim>\<open>ivls_len\<close> has dtype \<^verbatim>\<open>uint32\<close>, so a stored length is reduced
  modulo \<open>2^32\<close>. Group names are taken as flat keys.
\<close>

record stats_group =
  reads_per_ivl :: "int list list"
  ivls_type :: "string list"
  ivls_len :: "32 word list"
  valid_intron :: "bool list"

text \<open>\<^verbatim>\<open>np.row_stack\<close> of one-dimensional arrays: they must have one length.\<close>

definition row_stack :: "'a list list \<Rightarrow> error + 'a list list" where
  "row_stack rs = (if list_all (\<lambda>r. length r = length (hd rs)) rs then Inr rs else Inl ValueError)"

text \<open>The loop of lines 157-160 over \<^verbatim>\<open>enumerate(g.ivls)\<close>, on the three arrays of zeros.\<close>

definition fill_intervals :: "interval list \<Rightarrow> string list \<times> 32 word list \<times> bool list" where
  "fill_intervals ivs =
     fold (\<lambda>(j, ivl) (type_intervals, len_intervals, valid_intron_arr).
             (type_intervals[j := take 3 (ivltype ivl)],
              len_intervals[j := word_of_int \<bar>ivl_end ivl - ivl_start ivl\<bar>],
              valid_intron_arr[j := is_sure_valid_intron ivl]))
       (enumerate 0 ivs)
       (replicate (length ivs) [], replicate (length ivs) 0, replicate (length ivs) False)"

text \<open>The body of the loop of lines 151-167 for one gene: the four datasets of its group.\<close>

definition gene_stats :: "gene \<Rightarrow> error + stats_group" where
  "gene_stats g =
     (case fill_intervals (ivls g) of
        (type_intervals, len_intervals, valid_intron_arr) \<Rightarrow>
          (case row_stack [ivljunction5_read_counts g, ivlinside_read_counts g,
                           ivljunction3_read_counts g] of
             Inl e \<Rightarrow> Inl e
           | Inr m \<Rightarrow>
               Inr \<lparr>reads_per_ivl = m, ivls_type = type_intervals,
                    ivls_len = len_intervals, valid_intron = valid_intron_arr\<rparr>))"

text \<open>\<^verbatim>\<open>create_group\<close> raises \<^verbatim>\<open>ValueError\<close> for a name that is already in the file.\<close>

fun write_stats :: "gene list \<Rightarrow> (string \<times> stats_group) list \<Rightarrow> error + (string \<times> stats_group) list" where
  "write_stats [] h5 = Inr h5"
| "write_stats (g # gs) h5 =
     (if map_of h5 (geneid g) \<noteq> None then Inl ValueError
      else
        (case gene_stats g of
           Inl e \<Rightarrow> Inl e
         | Inr grp \<Rightarrow> write_stats gs (h5 @ [(geneid g, grp)])))"

subsection \<open>Row attributes (lines 176-190)\<close>

definition atr_table :: "(string \<times> (gene \<Rightarrow> pyval)) list" where
  "atr_table =
     [(''Gene'', \<lambda>g. PyStr (genename g)),
      (''Accession'', \<lambda>g. PyStr (geneid g)),
      (''Chromosome'', \<lambda>g. PyStr (chrom g)),
      (''Strand'', \<lambda>g. PyStr (strand g)),
      (''Start'', \<lambda>g. PyInt (gene_start g)),
      (''End'', \<lambda>g. PyInt (gene_end g))]"

text \<open>The inner loop of lines 188-189: \<^verbatim>\<open>tmp_array[i] = getattr(g, name)\<close>.\<close>

definition fill_array :: "('a \<Rightarrow> 'b) \<Rightarrow> 'a list \<Rightarrow> 'b list \<Rightarrow> 'b list" where
  "fill_array f xs arr = fold (\<lambda>(i, x) acc. acc[i := f x]) (enumerate 0 xs) arr"

definition row_attrs_of :: "gene list \<Rightarrow> (string \<times> pyval list) list" where
  "row_attrs_of gs =
     fold (\<lambda>(name_col_attr, get) ra.
             AList.update name_col_attr (fill_array get gs (replicate (length gs) (PyInt 0))) ra)
       atr_table []"

subsection \<open>The numeric layers (lines 192-204)\<close>

text \<open>
  A two-dimensional array with its shape. The element type of the layers,
  \<^verbatim>\<open>vcy.LOOM_NUMERIC_DTYPE\<close>, is a constant defined outside the two source files: the
  layers are arrays of unsigned machine integers of a width \<open>'a\<close> that stays a parameter,
  and storing a count into a layer reduces it modulo \<open>2^LENGTH('a)\<close>.
\<close>

record 'w matrix =
  shape :: "nat \<times> nat"
  rows :: "'w list list"

definition zeros :: "nat \<times> nat \<Rightarrow> ('w::zero) matrix" where
  "zeros sh = \<lparr>shape = sh, rows = replicate (fst sh) (replicate (snd sh) 0)\<rparr>"

text \<open>
  \<^verbatim>\<open>m[i, :] = v\<close>: a vector of the row's length is stored, a vector of length one is
  broadcast over the row, any other length raises \<^verbatim>\<open>ValueError\<close>.
\<close>

definition set_row :: "'w matrix \<Rightarrow> nat \<Rightarrow> 'w list \<Rightarrow> error + 'w matrix" where
  "set_row m i v =
     (if fst (shape m) \<le> i then Inl IndexError
      else if length v = snd (shape m) then Inr (m\<lparr>rows := (rows m)[i := v]\<rparr>)
      else if length v = 1 then Inr (m\<lparr>rows := (rows m)[i := replicate (snd (shape m)) (hd v)]\<rparr>)
      else Inl ValueError)"

fun fill_layers ::
  "(nat \<times> gene) list \<Rightarrow> 'a::len word matrix \<times> 'a word matrix \<times> 'a word matrix
     \<Rightarrow> error + 'a word matrix \<times> 'a word matrix \<times> 'a word matrix" where
  "fill_layers [] m = Inr m"
| "fill_layers ((i, g) # rest) (spliced, unspliced, ambiguous) =
     (case set_row spliced i (map word_of_int (spliced_mol_counts g)) of
        Inl e \<Rightarrow> Inl e
      | Inr spliced' \<Rightarrow>
          (case set_row unspliced i (map word_of_int (unspliced_mol_counts g)) of
             Inl e \<Rightarrow> Inl e
           | Inr unspliced' \<Rightarrow>
               (case set_row ambiguous i (map word_of_int (ambiguous_mol_counts g)) of
                  Inl e \<Rightarrow> Inl e
                | Inr ambiguous' \<Rightarrow> fill_layers rest (spliced', unspliced', ambiguous'))))"

text \<open>\<^verbatim>\<open>a + b\<close> on two arrays of one shape, and \<^verbatim>\<open>np.any\<close>.\<close>

definition mat_add :: "('w::plus) matrix \<Rightarrow> 'w matrix \<Rightarrow> 'w matrix" where
  "mat_add a b = \<lparr>shape = shape a, rows = map2 (map2 (+)) (rows a) (rows b)\<rparr>"

definition np_any :: "('w::zero) matrix \<Rightarrow> bool" where
  "np_any m = list_ex (list_ex (\<lambda>x. x \<noteq> 0)) (rows m)"

subsection \<open>The loom file and the whole run (lines 25-213)\<close>

text \<open>
  The value of a 32-bit float that holds a natural number: the number itself, or positive
  infinity. \<open>to_float32\<close> is the conversion of an unsigned integer to \<^verbatim>\<open>float32\<close>
  (\<^verbatim>\<open>astype("float32")\<close>): the significand keeps 24 bits, the bits below are rounded to
  the nearest value, a tie to the even one, and a result of \<open>2^128\<close> or more is infinity.
\<close>

datatype float32 = F32 nat | F32_inf

fun dropped_bits :: "nat \<Rightarrow> nat" where
  "dropped_bits n = (if n < 2 ^ 24 then 0 else Suc (dropped_bits (n div 2)))"

declare dropped_bits.simps [simp del]

definition to_float32 :: "nat \<Rightarrow> float32" where
  "to_float32 n =
     (let sh = dropped_bits n;
          q = n div 2 ^ sh;
          r = n mod 2 ^ sh;
          q' = (if 2 ^ sh < 2 * r \<or> (2 * r = 2 ^ sh \<and> odd q) then q + 1 else q)
      in if q' * 2 ^ sh < 2 ^ 128 then F32 (q' * 2 ^ sh) else F32_inf)"

text \<open>
  The loom file: the primary matrix as it is stored, the two attribute tables and the
  named layers.
\<close>

record 'w loom =
  filename :: string
  matrix :: "float32 matrix"
  row_attrs :: "(string \<times> pyval list) list"
  col_attrs :: "(string \<times> pyval list) list"
  layers :: "(string \<times> 'w matrix) list"

text \<open>
  Modelled from the spec: \<^verbatim>\<open>loompy.create\<close> and \<^verbatim>\<open>set_layer\<close> are calls into the
  \<^verbatim>\<open>loompy\<close> library, which is outside the two source files. By the schema of the
  multi-layer matrix artifact (sections 3 and 6 of the spec) the primary matrix is stored
  as 32-bit floats (line 207 passes \<^verbatim>\<open>dtype="float32"\<close>), every row attribute has one
  entry per row of the matrix, every column attribute one entry per column, and every layer
  has the shape of the primary matrix; a call that would break this raises
  \<^verbatim>\<open>ValueError\<close>. A layer is stored in the element type of the array it is given.
\<close>

definition loompy_create ::
  "string \<Rightarrow> ('a::len word) matrix \<Rightarrow> (string \<times> pyval list) list \<Rightarrow> (string \<times> pyval list) list
     \<Rightarrow> error + ('a word) loom" where
  "loompy_create fn m ra ca =
     (if list_all (\<lambda>(k, v). length v = fst (shape m)) ra
         \<and> list_all (\<lambda>(k, v). length v = snd (shape m)) ca
      then Inr \<lparr>filename = fn,
                matrix = \<lparr>shape = shape m, rows = map (map (\<lambda>x. to_float32 (unat x))) (rows m)\<rparr>,
                row_attrs = ra, col_attrs = ca, layers = []\<rparr>
      else Inl ValueError)"

definition set_layer :: "'w loom \<Rightarrow> string \<Rightarrow> 'w matrix \<Rightarrow> error + 'w loom" where
  "set_layer ds name m =
     (if shape m = shape (matrix ds) then Inr (ds\<lparr>layers := AList.update name m (layers ds)\<rparr>)
      else Inl ValueError)"

text \<open>
  What a run that returns leaves behind: the sample id and folder it settled on, the final
  values of the barcode variables, of \<^verbatim>\<open>sample\<close> and of \<^verbatim>\<open>exincounter.genes\<close>, the
  lines of the last-exon table, the groups of the
  statistics file and the loom file.
\<close>

record 'w run_output =
  out_sampleid :: string
  out_folder :: string
  final_cells :: barcodes
  out_sample :: "(string \<times> pyval) list"
  out_genes :: "gene list"
  lastexon_counts_tab :: "string list"
  mapstats :: "(string \<times> stats_group) list"
  loom_file :: "'w loom"

definition assemble ::
  "run_args \<Rightarrow> string \<Rightarrow> string \<Rightarrow> barcodes \<Rightarrow> (string \<times> pyval) list \<Rightarrow> gene list
     \<Rightarrow> ('a::len word) run_output result" where
  "assemble a sid outf b sample gs =
     (let ca = column_attrs (valid_cellid_list b) (additional_ca a) sample;
          olastexon_counts_file = path_join outf ''lastexon_counts.tab'';
          statsfilename = path_join outf (sid @ ''_mapstats.hdf5'');
          outfile = path_join outf (sid @ ''.loom'');
          shape_loom = (length gs, length (valid_bcs_list b))
      in emit [Log DEBUG (''Save 3'' @ [CHR 0x27] @ '' junction/exon read counts''),
               OpenWrite olastexon_counts_file, Close olastexon_counts_file,
               Log DEBUG ''Collecting genes structural info statistics'',
               OpenWrite statsfilename]
           (case write_stats gs [] of
              Inl e \<Rightarrow> raise e
            | Inr stats_hdf5 \<Rightarrow>
                emit [Close statsfilename,
                      Log DEBUG (''Mapping statistics have been saved to '' @ statsfilename),
                      Log DEBUG (''Generating output file '' @ outfile),
                      Log DEBUG ''Collecting row attributes'',
                      Log DEBUG ''Generating data table'']
                  (case fill_layers (enumerate 0 gs)
                          (zeros shape_loom, zeros shape_loom, zeros shape_loom) of
                     Inl e \<Rightarrow> raise e
                   | Inr (spliced, unspliced, ambiguous) \<Rightarrow>
                       (let total = mat_add (mat_add spliced unspliced) ambiguous
                        in emit ((if \<not> np_any total
                                  then [Log ERROR ''The output file is empty check the input!'']
                                  else [])
                                 @ [Log DEBUG ''Writing loom file'', OpenWrite outfile])
                             (case loompy_create outfile total (row_attrs_of gs) ca of
                                Inl e \<Rightarrow> raise e
                              | Inr ds0 \<Rightarrow>
                             (case set_layer ds0 ''spliced'' spliced of
                                Inl e \<Rightarrow> raise e
                              | Inr ds1 \<Rightarrow>
                             (case set_layer ds1 ''unspliced'' unspliced of
                                Inl e \<Rightarrow> raise e
                              | Inr ds2 \<Rightarrow>
                             (case set_layer ds2 ''ambiguous'' ambiguous of
                                Inl e \<Rightarrow> raise e
                              | Inr ds \<Rightarrow>
                                  emit [Close outfile, Log DEBUG ''Terminated Succesfully!'']
                                    (ok \<lparr>out_sampleid = sid, out_folder = outf,
                                         final_cells = b, out_sample = sample, out_genes = gs,
                                         lastexon_counts_tab =
                                           lastexon_header # map lastexon_line gs,
                                         mapstats = stats_hdf5,
                                         loom_file = ds\<rparr>)))))))))"

definition run :: "'e env \<Rightarrow> run_args \<Rightarrow> ('a::len word) run_output result" where
  "run env a =
     and_then (resolve_sampleid env a) (\<lambda>sid.
     and_then (resolve_outputfolder env a) (\<lambda>outf.
     and_then (read_barcodes env a sid) (\<lambda>bcs.
     and_then (get_metadata env a sid) (\<lambda>sample.
       (case bcs of
          None \<Rightarrow> raise UnboundLocalError
        | Some b \<Rightarrow>
            and_then (run_counter env a sid outf b) (\<lambda>ex.
            and_then (final_barcodes env ex sid b) (\<lambda>b'.
              assemble a sid outf b' sample (genes env ex))))))))"

section \<open>The batch dispatcher (\<^verbatim>\<open>multi10x\<close>)\<close>

subsection \<open>The file system\<close>

text \<open>
  The dispatcher only looks at which paths exist. A file system is the list of its
  paths, each a file or a directory; paths are absolute and carry no trailing slash.
\<close>

datatype node = File | Dir

type_synonym filesystem = "(string \<times> node) list"

definition os_path_exists :: "filesystem \<Rightarrow> string \<Rightarrow> bool" where
  "os_path_exists fs p = (map_of fs p \<noteq> None)"

definition is_dir :: "filesystem \<Rightarrow> string \<Rightarrow> bool" where
  "is_dir fs p = (map_of fs p = Some Dir)"

text \<open>The names directly under a directory.\<close>

definition children :: "filesystem \<Rightarrow> string \<Rightarrow> string list" where
  "children fs d =
     map (\<lambda>p. drop (length d + 1) p)
       (filter (\<lambda>p. take (length d + 1) p = d @ ''/'' \<and> drop (length d + 1) p \<noteq> []
                    \<and> CHR ''/'' \<notin> set (drop (length d + 1) p))
          (map fst fs))"

text \<open>\<^verbatim>\<open>os.listdir\<close>.\<close>

definition listdir :: "filesystem \<Rightarrow> string \<Rightarrow> error + string list" where
  "listdir fs d =
     (case map_of fs d of
        None \<Rightarrow> Inl FileNotFoundError
      | Some File \<Rightarrow> Inl NotADirectoryError
      | Some Dir \<Rightarrow> Inr (children fs d))"

text \<open>\<^verbatim>\<open>glob.glob("/data/proj/chromium/10X*")\<close> (line 64): the entries of that one
  directory, files or directories, whose names begin with \<^verbatim>\<open>10X\<close>.\<close>

definition all_10X_dirs :: "filesystem \<Rightarrow> string list" where
  "all_10X_dirs fs =
     map (\<lambda>n. ''/data/proj/chromium/'' @ n)
       (filter (\<lambda>n. take 3 n = ''10X'') (children fs ''/data/proj/chromium''))"

text \<open>
  \<^verbatim>\<open>os.mkdir\<close>. \<open>raced\<close> says that another process creates the directory between the
  existence test of line 73 and this call.
\<close>

definition os_mkdir :: "bool \<Rightarrow> filesystem \<Rightarrow> string \<Rightarrow> filesystem \<times> error option" where
  "os_mkdir raced fs p =
     (if raced then (fs @ [(p, Dir)], Some FileExistsError)
      else if os_path_exists fs p then (fs, Some FileExistsError)
      else (case map_of fs (split_head p) of
              None \<Rightarrow> (fs, Some FileNotFoundError)
            | Some File \<Rightarrow> (fs, Some NotADirectoryError)
            | Some Dir \<Rightarrow> (fs @ [(p, Dir)], None)))"

text \<open>\<^verbatim>\<open>open(p, "w")\<close> on a path that does not exist yet.\<close>

definition open_w :: "filesystem \<Rightarrow> string \<Rightarrow> filesystem \<times> error option" where
  "open_w fs p =
     (if is_dir fs (split_head p) then (AList.update p File fs, None)
      else (fs, Some FileNotFoundError))"

subsection \<open>The pattern of a finished loom file (line 79)\<close>

datatype rexp =
    RNone
  | REps
  | RChar "char \<Rightarrow> bool"
  | RAlt rexp rexp
  | RCat rexp rexp
  | RStar rexp

fun nullable :: "rexp \<Rightarrow> bool" where
  "nullable RNone = False"
| "nullable REps = True"
| "nullable (RChar p) = False"
| "nullable (RAlt r s) = (nullable r \<or> nullable s)"
| "nullable (RCat r s) = (nullable r \<and> nullable s)"
| "nullable (RStar r) = True"

fun deriv :: "char \<Rightarrow> rexp \<Rightarrow> rexp" where
  "deriv c RNone = RNone"
| "deriv c REps = RNone"
| "deriv c (RChar p) = (if p c then REps else RNone)"
| "deriv c (RAlt r s) = RAlt (deriv c r) (deriv c s)"
| "deriv c (RCat r s) =
     (if nullable r then RAlt (RCat (deriv c r) s) (deriv c s) else RCat (deriv c r) s)"
| "deriv c (RStar r) = RCat (deriv c r) (RStar r)"

text \<open>\<^verbatim>\<open>re.match(r, s)\<close> for a pattern anchored at both ends.\<close>

definition re_match :: "rexp \<Rightarrow> string \<Rightarrow> bool" where
  "re_match r s = nullable (fold deriv s r)"

definition lit :: "string \<Rightarrow> rexp" where
  "lit s = foldr (\<lambda>c r. RCat (RChar (\<lambda>x. x = c)) r) s REps"

definition one_of :: "string \<Rightarrow> rexp" where
  "one_of cs = RChar (\<lambda>x. x \<in> set cs)"

text \<open>
  \<^verbatim>\<open>^10X[_]*?[0-9]{2,3}_[0]*?[1-8]{1,}.loom$\<close>: the dot is any character but a newline,
  and \<^verbatim>\<open>$\<close> also matches before one final newline.
\<close>

definition loom_pattern :: rexp where
  "loom_pattern =
     RCat (lit ''10X'')
    (RCat (RStar (one_of ''_''))
    (RCat (one_of ''0123456789'')
    (RCat (one_of ''0123456789'')
    (RCat (RAlt REps (one_of ''0123456789''))
    (RCat (one_of ''_'')
    (RCat (RStar (one_of ''0''))
    (RCat (one_of ''12345678'')
    (RCat (RStar (one_of ''12345678''))
    (RCat (RChar (\<lambda>x. x \<noteq> CHR 0x0A))
    (RCat (lit ''loom'')
          (RAlt REps (RChar (\<lambda>x. x = CHR 0x0A)))))))))))))"

subsection \<open>The dispatch loop (lines 58-98)\<close>

record multi10x_args =
  parentfolder :: string
  ivlfile_arg :: string
  number :: int
  wait :: int
  metadatatable_arg :: "string option"
  repmask_arg :: "string option"
  logfolder :: "string option"
  debug_flag :: bool

text \<open>The command line of one worker (lines 81-88); \<^verbatim>\<open>if x:\<close> holds for a non-empty string.\<close>

definition arguments :: "multi10x_args \<Rightarrow> string \<Rightarrow> string list" where
  "arguments a sample_id =
     [''nohup'', ''velocyto'', ''run10x'', ''/data/proj/chromium/'' @ sample_id, ivlfile_arg a]
     @ (case metadatatable_arg a of
          None \<Rightarrow> []
        | Some m \<Rightarrow> if m = [] then [] else [''--metadatatable'', m])
     @ (case repmask_arg a of
          None \<Rightarrow> []
        | Some r \<Rightarrow> if r = [] then [] else [''--repmask'', r])
     @ (if debug_flag a then [''--debug''] else [])"

text \<open>
  One turn of the loop for the directory \<open>dir_i\<close>, with \<open>n\<close> workers launched so far.
  The result is \<open>Inr n'\<close> when the loop goes on with the counter \<open>n'\<close>, and \<open>Inl e\<close>
  when the exception \<open>e\<close> ends the command; \<^verbatim>\<open>sys.exit()\<close> is \<open>SystemExit 0\<close>.
  \<^verbatim>\<open>os.path.join(None, ...)\<close> raises \<^verbatim>\<open>TypeError\<close>, and \<^verbatim>\<open>time.sleep\<close> of a negative
  number raises \<^verbatim>\<open>ValueError\<close>.
\<close>

definition launch ::
  "multi10x_args \<Rightarrow> string \<Rightarrow> string \<Rightarrow> int \<Rightarrow> filesystem
     \<Rightarrow> event list \<times> filesystem \<times> (error + int)" where
  "launch a sample_id name_log_file n fs =
     (let args = arguments a sample_id;
          ev_run = Log DEBUG (''Running the comand '' @ join '' '' args @ '' > ''
                              @ name_log_file @ '' &'')
      in (case open_w fs name_log_file of
            (fs', Some e) \<Rightarrow> ([ev_run, OpenWrite name_log_file], fs', Inl e)
          | (fs', None) \<Rightarrow>
              if n + 1 \<ge> number a then
                ([ev_run, OpenWrite name_log_file, Popen args name_log_file, Log DEBUG ''Done!''],
                 fs', Inl (SystemExit 0))
              else if wait a < 0 then
                ([ev_run, OpenWrite name_log_file, Popen args name_log_file], fs', Inl ValueError)
              else
                ([ev_run, OpenWrite name_log_file, Popen args name_log_file, Sleep (wait a)],
                 fs', Inr (n + 1))))"

definition examine ::
  "multi10x_args \<Rightarrow> string \<Rightarrow> string \<Rightarrow> string \<Rightarrow> int \<Rightarrow> filesystem
     \<Rightarrow> event list \<times> filesystem \<times> (error + int)" where
  "examine a vc_dir sample_id name_log_file n fs =
     (case listdir fs vc_dir of
        Inl e \<Rightarrow> ([], fs, Inl e)
      | Inr names \<Rightarrow>
          (let list_loom = filter (re_match loom_pattern) names
           in if list_loom = [] \<and> \<not> os_path_exists fs name_log_file
              then launch a sample_id name_log_file n fs
              else ([Log DEBUG (''Skipping '' @ sample_id @ '' appears already running or run.'')],
                    fs, Inr n)))"

definition visit ::
  "multi10x_args \<Rightarrow> (string \<Rightarrow> bool) \<Rightarrow> string \<Rightarrow> int \<Rightarrow> filesystem
     \<Rightarrow> event list \<times> filesystem \<times> (error + int)" where
  "visit a raced dir_i n fs =
     (let vc_dir = dir_i @ ''/velocyto'';
          sample_id = split_last CHR ''/'' dir_i
      in (case logfolder a of
            None \<Rightarrow> ([], fs, Inl TypeError)
          | Some lf \<Rightarrow>
              (let name_log_file = path_join lf (''nohup_'' @ sample_id @ ''.out'')
               in if \<not> os_path_exists fs vc_dir then
                    (case os_mkdir (raced vc_dir) fs vc_dir of
                       (fs', Some e) \<Rightarrow>
                         if e = FileExistsError then
                           ([Mkdir vc_dir,
                             Log DEBUG ''Wow this the directory was created after we checked! another process is running the sample. Move on.''],
                            fs', Inr n)
                         else ([Mkdir vc_dir], fs', Inl e)
                     | (fs', None) \<Rightarrow>
                         (case examine a vc_dir sample_id name_log_file n fs' of
                            (evs, r) \<Rightarrow> (Mkdir vc_dir # evs, r)))
                  else examine a vc_dir sample_id name_log_file n fs)))"

fun dispatch ::
  "multi10x_args \<Rightarrow> (string \<Rightarrow> bool) \<Rightarrow> string list \<Rightarrow> int \<Rightarrow> filesystem
     \<Rightarrow> event list \<times> filesystem \<times> error option" where
  "dispatch a raced [] n fs = ([], fs, None)"
| "dispatch a raced (dir_i # rest) n fs =
     (case visit a raced dir_i n fs of
        (evs, fs', Inl e) \<Rightarrow> (evs, fs', Some e)
      | (evs, fs', Inr n') \<Rightarrow>
          (case dispatch a raced rest n' fs' of
             (evs', r) \<Rightarrow> (evs @ evs', r)))"

definition multi10x ::
  "multi10x_args \<Rightarrow> (string \<Rightarrow> bool) \<Rightarrow> filesystem \<Rightarrow> event list \<times> filesystem \<times> error option" where
  "multi10x a raced fs =
     (case dispatch a raced (sort (all_10X_dirs fs)) 0 fs of
        (evs, r) \<Rightarrow>
          (Log DEBUG (''Attempting to start '' @ str_int (number a) @ '' processes'') # evs, r))"

text \<open>The workers an invocation has spawned, and the sample directories it has examined.\<close>

fun is_popen :: "event \<Rightarrow> bool" where
  "is_popen (Popen args f) = True"
| "is_popen e = False"

definition spawned :: "event list \<Rightarrow> nat" where
  "spawned evs = length (filter is_popen evs)"

section \<open>Concrete inputs\<close>

subsection \<open>A small sample: two genes, three intervals, two cells\<close>

definition gene_a :: gene where
  "gene_a =
     \<lparr>genename = ''Actb'', geneid = ''ENSG01'', chrom = ''5'', strand = ''+'',
      gene_start = 100, gene_end = 900,
      ivls = [\<lparr>ivltype = ''e'', ivl_start = 100, ivl_end = 300, is_sure_valid_intron = False\<rparr>,
              \<lparr>ivltype = ''i'', ivl_start = 300, ivl_end = 650, is_sure_valid_intron = True\<rparr>],
      ivljunction5_read_counts = [1, 0],
      ivlinside_read_counts = [7, 2],
      ivljunction3_read_counts = [0, 3],
      spliced_mol_counts = [3, 0],
      unspliced_mol_counts = [1, 2],
      ambiguous_mol_counts = [0, 4],
      read_start_counts_from_locus_end = [4, 2, 1, 0],
      lastexon_counts = (2, 5), lastexon_length = 3, tr_end = 900, deduced_tr_end = 880\<rparr>"

definition gene_b :: gene where
  "gene_b =
     \<lparr>genename = ''Gapdh'', geneid = ''ENSG02'', chrom = ''6'', strand = ''-'',
      gene_start = 2000, gene_end = 2400,
      ivls = [\<lparr>ivltype = ''e'', ivl_start = 2400, ivl_end = 2000, is_sure_valid_intron = False\<rparr>],
      ivljunction5_read_counts = [2],
      ivlinside_read_counts = [9],
      ivljunction3_read_counts = [1],
      spliced_mol_counts = [5, 1],
      unspliced_mol_counts = [0, 0],
      ambiguous_mol_counts = [2, 0],
      read_start_counts_from_locus_end = [1, 1],
      lastexon_counts = (0, 6), lastexon_length = 2, tr_end = 2000, deduced_tr_end = 2010\<rparr>"

text \<open>
  A world with one barcode file of two lines, an empty barcode file, a barcode file whose
  two lines have no suffix, and a sample sheet that knows \<^verbatim>\<open>S1\<close> once and \<^verbatim>\<open>S2\<close> twice. The
  counter was given the barcodes and holds the two genes.
\<close>

definition sample_env :: "unit env" where
  "sample_env =
     \<lparr>random_choice = (\<lambda>i. 7 * i + 3),
      path_exists = (\<lambda>p. False),
      mkdir = (\<lambda>p. None),
      readlines = (\<lambda>f. if f = ''barcodes.tsv'' then Inr [''AAAC-1'' @ newline, ''CCGT-1'' @ newline]
                        else if f = ''empty.tsv'' then Inr []
                        else if f = ''bare.tsv'' then Inr [''ACGT'' @ newline, ''TTGA'' @ newline]
                        else Inl FileNotFoundError),
      metadata_where = (\<lambda>t f v. if v = ''S1'' then Inr [[(''Age'', PyInt 3), (''CellID'', PyStr ''x'')]]
                                 else if v = ''S2'' then Inr [[(''Age'', PyInt 3)], [(''Age'', PyInt 4)]]
                                 else Inr []),
      ExInCounter = (\<lambda>d. ()),
      read_genes = (\<lambda>e f. Inr (3, ())),
      read_repeats = (\<lambda>e f. Inr (0, ())),
      mark_up_introns = (\<lambda>e f. Inr ()),
      count = (\<lambda>e f b. Inr ()),
      genes = (\<lambda>e. [gene_a, gene_b]),
      filter_mode = (\<lambda>e. True),
      counter_valid_bcs2idx = (\<lambda>e. [(''CCGT'', 1), (''AAAC'', 0)])\<rparr>"

definition sample_args :: run_args where
  "sample_args =
     \<lparr>bamfile = ''/data/s1/possorted.bam'', ivlfile = ''ivls.txt'', bcfile = Some ''barcodes.tsv'',
      outputfolder = None, sampleid = Some ''S1'', metadatatable = Some ''sheet.csv'',
      repmask = None, debug = False, additional_ca = [(''Clusters'', [PyInt 1, PyInt 2])]\<rparr>"

definition sample_cells :: barcodes where
  "sample_cells =
     \<lparr>valid_bcs_list = [''AAAC-1'', ''CCGT-1''],
      valid_cellid_list = [''S1:AAAC-1'', ''S1:CCGT-1''],
      valid_bcs2idx = [(''AAAC'', 0), (''CCGT'', 1)]\<rparr>"

text \<open>What the run on the sample leaves behind, with the unsigned 16-bit layers.\<close>

definition sample_out :: "16 word run_output" where
  "sample_out =
     \<lparr>out_sampleid = ''S1'', out_folder = ''/data/s1/velocyto'',
      final_cells = sample_cells,
      out_sample = [(''Age'', PyInt 3), (''CellID'', PyStr ''x'')],
      out_genes = [gene_a, gene_b],
      lastexon_counts_tab = lastexon_header # map lastexon_line [gene_a, gene_b],
      mapstats =
        [(''ENSG01'', \<lparr>reads_per_ivl = [[1, 0], [7, 2], [0, 3]], ivls_type = [''e'', ''i''],
                        ivls_len = [200, 350], valid_intron = [False, True]\<rparr>),
         (''ENSG02'', \<lparr>reads_per_ivl = [[2], [9], [1]], ivls_type = [''e''],
                        ivls_len = [400], valid_intron = [False]\<rparr>)],
      loom_file =
        \<lparr>filename = ''/data/s1/velocyto/S1.loom'',
         matrix = \<lparr>shape = (2, 2), rows = [[F32 4, F32 6], [F32 7, F32 1]]\<rparr>,
         row_attrs =
           [(''Gene'', [PyStr ''Actb'', PyStr ''Gapdh'']),
            (''Accession'', [PyStr ''ENSG01'', PyStr ''ENSG02'']),
            (''Chromosome'', [PyStr ''5'', PyStr ''6'']),
            (''Strand'', [PyStr ''+'', PyStr ''-'']),
            (''Start'', [PyInt 100, PyInt 2000]),
            (''End'', [PyInt 900, PyInt 2400])],
         col_attrs =
           [(''CellID'', [PyStr ''x'', PyStr ''x'']),
            (''Clusters'', [PyInt 1, PyInt 2]),
            (''Age'', [PyInt 3, PyInt 3])],
         layers =
           [(''spliced'', \<lparr>shape = (2, 2), rows = [[3, 0], [5, 1]]\<rparr>),
            (''unspliced'', \<lparr>shape = (2, 2), rows = [[1, 2], [0, 0]]\<rparr>),
            (''ambiguous'', \<lparr>shape = (2, 2), rows = [[0, 4], [2, 0]]\<rparr>)]\<rparr>\<rparr>"

text \<open>The sample run with a caller-supplied column attribute of three entries.\<close>

definition ragged_args :: run_args where
  "ragged_args = sample_args\<lparr>additional_ca := [(''Clusters'', [PyInt 1, PyInt 2, PyInt 3])]\<rparr>"

text \<open>The sample with the barcode file whose lines carry no suffix.\<close>

definition bare_args :: run_args where
  "bare_args = sample_args\<lparr>bcfile := Some ''bare.tsv''\<rparr>"

text \<open>The sample without a barcode file.\<close>

definition discovered_args :: run_args where
  "discovered_args = sample_args\<lparr>bcfile := None\<rparr>"

text \<open>
  The sample world with a first gene that has 65535 spliced molecules and one unspliced
  molecule in the first cell.
\<close>

definition busy_gene :: gene where
  "busy_gene = gene_a\<lparr>spliced_mol_counts := [65535, 0], unspliced_mol_counts := [1, 2]\<rparr>"

definition busy_env :: "unit env" where
  "busy_env = sample_env\<lparr>genes := (\<lambda>e. [busy_gene, gene_b])\<rparr>"

text \<open>The sample with the barcode file of zero lines, and the sample without a sample id.\<close>

definition empty_args :: run_args where
  "empty_args = sample_args\<lparr>bcfile := Some ''empty.tsv''\<rparr>"

definition anonymous_args :: run_args where
  "anonymous_args = sample_args\<lparr>sampleid := None\<rparr>"

text \<open>The sample under an id the sheet does not know, and under an id it knows twice.\<close>

definition unknown_args :: run_args where
  "unknown_args = sample_args\<lparr>sampleid := Some ''S0''\<rparr>"

definition twice_args :: run_args where
  "twice_args = sample_args\<lparr>sampleid := Some ''S2''\<rparr>"

text \<open>The second gene with one interval of \<open>2^32\<close> bases, and the sample world holding it.\<close>

definition long_gene :: gene where
  "long_gene =
     gene_b\<lparr>ivls := [\<lparr>ivltype = ''e'', ivl_start = 0, ivl_end = 4294967296,
                        is_sure_valid_intron = False\<rparr>]\<rparr>"

definition long_env :: "unit env" where
  "long_env = sample_env\<lparr>genes := (\<lambda>e. [gene_a, long_gene])\<rparr>"

subsection \<open>A machine for the dispatcher\<close>

text \<open>
  A machine with the laboratory's directory, which holds one finished sample, one sample
  not yet run and a file, with another folder of samples, and with a folder for the logs;
  the dispatcher is sent to the other folder.
\<close>

definition lab_fs :: filesystem where
  "lab_fs =
     [(''/data'', Dir), (''/data/proj'', Dir), (''/data/proj/chromium'', Dir),
      (''/data/proj/chromium/10X_07'', Dir),
      (''/data/proj/chromium/10X_05'', Dir),
      (''/data/proj/chromium/10X_05/velocyto'', Dir),
      (''/data/proj/chromium/10X_05/velocyto/10X_05_1.loom'', File),
      (''/data/proj/chromium/notes.txt'', File),
      (''/work'', Dir), (''/work/samples'', Dir), (''/work/samples/10X_01'', Dir),
      (''/logs'', Dir)]"

definition batch_args :: multi10x_args where
  "batch_args =
     \<lparr>parentfolder = ''/work/samples'', ivlfile_arg = ''/ref/ivls.txt'', number = 5, wait = 20,
      metadatatable_arg = None, repmask_arg = None, logfolder = Some ''/logs'',
      debug_flag = False\<rparr>"

definition zero_cap_args :: multi10x_args where
  "zero_cap_args = batch_args\<lparr>number := 0\<rparr>"

section \<open>Properties of the single-sample pipeline\<close>

text \<open>An array whose rows agree with its shape.\<close>

definition well_shaped :: "'w matrix \<Rightarrow> bool" where
  "well_shaped m =
     (length (rows m) = fst (shape m) \<and> list_all (\<lambda>r. length r = snd (shape m)) (rows m))"

subsection \<open>Results, stages and shapes\<close>

lemma snd_ok [simp]: "snd (ok x) = Inr x"
  by (simp add: ok_def)

lemma fst_ok [simp]: "fst (ok x) = []"
  by (simp add: ok_def)

lemma snd_raise [simp]: "snd (raise e) = Inl e"
  by (simp add: raise_def)

lemma fst_raise [simp]: "fst (raise e) = []"
  by (simp add: raise_def)

lemma snd_emit [simp]: "snd (emit evs m) = snd m"
  by (simp add: emit_def)

lemma fst_emit [simp]: "fst (emit evs m) = evs @ fst m"
  by (simp add: emit_def)

lemma snd_call [simp]: "snd (call ev r) = r"
  by (simp add: call_def)

lemma fst_call [simp]: "fst (call ev r) = [ev]"
  by (simp add: call_def)

lemma snd_and_then_Inr:
  "snd (and_then m f) = Inr y \<longleftrightarrow> (\<exists>x. snd m = Inr x \<and> snd (f x) = Inr y)"
  by (auto simp: and_then_def split: sum.splits)

lemma and_then_Inl: "snd m = Inl e \<Longrightarrow> and_then m f = (fst m, Inl e)"
  by (simp add: and_then_def)

lemma and_then_Inr: "snd m = Inr x \<Longrightarrow> and_then m f = (fst m @ fst (f x), snd (f x))"
  by (simp add: and_then_def)

lemma run_InrD:
  assumes "snd (run env a) = Inr out"
  obtains sid outf b sample ex b' where
    "snd (resolve_sampleid env a) = Inr sid"
    "snd (resolve_outputfolder env a) = Inr outf"
    "snd (read_barcodes env a sid) = Inr (Some b)"
    "snd (get_metadata env a sid) = Inr sample"
    "snd (run_counter env a sid outf b) = Inr ex"
    "snd (final_barcodes env ex sid b) = Inr b'"
    "snd (assemble a sid outf b' sample (genes env ex)) = Inr out"
  using assms unfolding run_def
  by (auto simp: snd_and_then_Inr split: option.splits)

lemma loom_written:
  assumes "loompy_create fn m ra ca = Inr ds0"
    and "set_layer ds0 ''spliced'' spliced = Inr ds1"
    and "set_layer ds1 ''unspliced'' unspliced = Inr ds2"
    and "set_layer ds2 ''ambiguous'' ambiguous = Inr ds"
  shows "matrix ds = \<lparr>shape = shape m,
                       rows = map (map (\<lambda>x. to_float32 (unat x))) (rows m)\<rparr>"
    and "row_attrs ds = ra" and "col_attrs ds = ca"
    and "layers ds = [(''spliced'', spliced), (''unspliced'', unspliced), (''ambiguous'', ambiguous)]"
    and "list_all (\<lambda>(k, v). length v = fst (shape m)) ra"
    and "list_all (\<lambda>(k, v). length v = snd (shape m)) ca"
proof -
  from assms(1) have ds0: "ds0 = \<lparr>filename = fn,
      matrix = \<lparr>shape = shape m, rows = map (map (\<lambda>x. to_float32 (unat x))) (rows m)\<rparr>,
      row_attrs = ra, col_attrs = ca, layers = []\<rparr>"
    and ok: "list_all (\<lambda>(k, v). length v = fst (shape m)) ra"
      "list_all (\<lambda>(k, v). length v = snd (shape m)) ca"
    by (auto simp: loompy_create_def split: if_splits)
  from assms(2) have ds1: "ds1 = ds0\<lparr>layers := AList.update ''spliced'' spliced (layers ds0)\<rparr>"
    by (auto simp: set_layer_def split: if_splits)
  from assms(3) have ds2: "ds2 = ds1\<lparr>layers := AList.update ''unspliced'' unspliced (layers ds1)\<rparr>"
    by (auto simp: set_layer_def split: if_splits)
  from assms(4) have ds: "ds = ds2\<lparr>layers := AList.update ''ambiguous'' ambiguous (layers ds2)\<rparr>"
    by (auto simp: set_layer_def split: if_splits)
  show "matrix ds = \<lparr>shape = shape m,
                       rows = map (map (\<lambda>x. to_float32 (unat x))) (rows m)\<rparr>"
    and "row_attrs ds = ra" and "col_attrs ds = ca"
    and "layers ds = [(''spliced'', spliced), (''unspliced'', unspliced), (''ambiguous'', ambiguous)]"
    by (simp_all add: ds ds2 ds1 ds0)
  from ok show "list_all (\<lambda>(k, v). length v = fst (shape m)) ra"
    and "list_all (\<lambda>(k, v). length v = snd (shape m)) ca"
    by simp_all
qed

lemma assemble_InrD:
  assumes "snd (assemble a sid outf b sample gs) = Inr out"
  obtains stats_hdf5 spliced unspliced ambiguous where
    "write_stats gs [] = Inr stats_hdf5"
    "fill_layers (enumerate 0 gs)
       (zeros (length gs, length (valid_bcs_list b)), zeros (length gs, length (valid_bcs_list b)),
        zeros (length gs, length (valid_bcs_list b))) = Inr (spliced, unspliced, ambiguous)"
    "out_sampleid out = sid" "out_folder out = outf" "final_cells out = b"
    "out_sample out = sample" "out_genes out = gs"
    "mapstats out = stats_hdf5"
    "matrix (loom_file out) =
       \<lparr>shape = shape (mat_add (mat_add spliced unspliced) ambiguous),
        rows = map (map (\<lambda>x. to_float32 (unat x)))
                 (rows (mat_add (mat_add spliced unspliced) ambiguous))\<rparr>"
    "row_attrs (loom_file out) = row_attrs_of gs"
    "col_attrs (loom_file out) = column_attrs (valid_cellid_list b) (additional_ca a) sample"
    "layers (loom_file out) = [(''spliced'', spliced), (''unspliced'', unspliced), (''ambiguous'', ambiguous)]"
    "list_all (\<lambda>(k, v). length v = fst (shape (mat_add (mat_add spliced unspliced) ambiguous)))
       (row_attrs_of gs)"
    "list_all (\<lambda>(k, v). length v = snd (shape (mat_add (mat_add spliced unspliced) ambiguous)))
       (column_attrs (valid_cellid_list b) (additional_ca a) sample)"
proof -
  let ?sh = "(length gs, length (valid_bcs_list b))"
  let ?ca = "column_attrs (valid_cellid_list b) (additional_ca a) sample"
  from assms obtain stats_hdf5 spliced unspliced ambiguous ds0 ds1 ds2 ds where
    ws: "write_stats gs [] = Inr stats_hdf5" and
    fill: "fill_layers (enumerate 0 gs) (zeros ?sh, zeros ?sh, zeros ?sh)
             = Inr (spliced, unspliced, ambiguous)" and
    loom: "loompy_create (path_join outf (sid @ ''.loom''))
             (mat_add (mat_add spliced unspliced) ambiguous) (row_attrs_of gs) ?ca = Inr ds0"
      "set_layer ds0 ''spliced'' spliced = Inr ds1"
      "set_layer ds1 ''unspliced'' unspliced = Inr ds2"
      "set_layer ds2 ''ambiguous'' ambiguous = Inr ds" and
    out: "out = \<lparr>out_sampleid = sid, out_folder = outf, final_cells = b, out_sample = sample,
                 out_genes = gs,
                 lastexon_counts_tab = lastexon_header # map lastexon_line gs,
                 mapstats = stats_hdf5, loom_file = ds\<rparr>"
    unfolding assemble_def Let_def
    by (auto split: sum.splits prod.splits)
  from out have "out_sampleid out = sid" "out_folder out = outf" "final_cells out = b"
    "out_sample out = sample" "out_genes out = gs" "mapstats out = stats_hdf5"
    "loom_file out = ds"
    by simp_all
  with that[OF ws fill] loom_written[OF loom] show ?thesis by simp
qed

lemma to_float32_exact: "n < 2 ^ 24 \<Longrightarrow> to_float32 n = F32 n"
proof -
  assume n: "n < 2 ^ 24"
  then have "dropped_bits n = 0" by (simp add: dropped_bits.simps)
  moreover have "n < 2 ^ 128"
  proof -
    have "(2::nat) ^ 24 \<le> 2 ^ 128" by (rule power_increasing) simp_all
    with n show ?thesis by simp
  qed
  ultimately show ?thesis by (simp add: to_float32_def)
qed

lemma well_shaped_zeros: "well_shaped (zeros sh)"
  by (simp add: well_shaped_def zeros_def list_all_iff)

lemma set_row_shape:
  assumes "set_row m i v = Inr m'" "well_shaped m"
  shows "well_shaped m' \<and> shape m' = shape m"
  using assms
  by (auto simp: set_row_def well_shaped_def list_all_iff split: if_splits dest!: set_update_subset_insert[THEN subsetD])

lemma fill_layers_shape:
  assumes "fill_layers ps (s, u, am) = Inr (s', u', am')"
    and "well_shaped s" "well_shaped u" "well_shaped am"
  shows "(well_shaped s' \<and> shape s' = shape s) \<and> (well_shaped u' \<and> shape u' = shape u)
         \<and> (well_shaped am' \<and> shape am' = shape am)"
  using assms
proof (induction ps arbitrary: s u am)
  case Nil
  then show ?case by simp
next
  case (Cons p ps)
  obtain i g where p: "p = (i, g)" by (cases p)
  from Cons.prems(1) obtain s1 u1 a1 where
    s1: "set_row s i (map word_of_int (spliced_mol_counts g)) = Inr s1" and
    u1: "set_row u i (map word_of_int (unspliced_mol_counts g)) = Inr u1" and
    a1: "set_row am i (map word_of_int (ambiguous_mol_counts g)) = Inr a1" and
    rest: "fill_layers ps (s1, u1, a1) = Inr (s', u', am')"
    by (auto simp: p split: sum.splits)
  note h1 = set_row_shape[OF s1 Cons.prems(2)] set_row_shape[OF u1 Cons.prems(3)]
    set_row_shape[OF a1 Cons.prems(4)]
  from Cons.IH[OF rest] h1 show ?case by simp
qed

lemma mat_add_shape:
  assumes "well_shaped a" "well_shaped b" "shape b = shape a"
  shows "well_shaped (mat_add a b)" "shape (mat_add a b) = shape a"
  using assms
  by (auto simp: mat_add_def well_shaped_def list_all_iff set_zip)

lemma mat_add_nth:
  assumes "well_shaped a" "well_shaped b" "shape b = shape a"
    and "i < fst (shape a)" "j < snd (shape a)"
  shows "rows (mat_add a b) ! i ! j = rows a ! i ! j + rows b ! i ! j"
  using assms
  by (auto simp: mat_add_def well_shaped_def list_all_iff)


lemma snd_and_then: "snd (and_then m f) = (case snd m of Inl e \<Rightarrow> Inl e | Inr x \<Rightarrow> snd (f x))"
  by (simp add: and_then_def split: sum.splits)

lemmas py_defs = strip_def is_space_def split_first_def split_last_def basename_def split_head_def
  path_join_def slice_to_def dict_update_def dict_of_def str_int_def tab_def newline_def

lemmas stage_defs = run_def resolve_sampleid_def resolve_outputfolder_def read_barcodes_def
  get_metadata_def run_counter_def count_molecules_def final_barcodes_def assemble_def
  column_attrs_def fill_intervals_def gene_stats_def row_stack_def row_attrs_of_def atr_table_def
  fill_array_def zeros_def set_row_def mat_add_def np_any_def loompy_create_def set_layer_def
  to_float32_exact snd_and_then Let_def

lemma sample_run: "snd (run sample_env sample_args) = Inr sample_out"
  by (simp add: stage_defs py_defs sample_env_def sample_args_def gene_a_def gene_b_def
      sample_out_def sample_cells_def)

lemma read_barcodes_lengths:
  "snd (read_barcodes env a sid) = Inr (Some b) \<Longrightarrow>
     length (valid_cellid_list b) = length (valid_bcs_list b)"
  by (auto simp: read_barcodes_def snd_and_then Let_def split: option.splits sum.splits list.splits)

lemma final_barcodes_lengths:
  "snd (final_barcodes env ex sid b) = Inr b' \<Longrightarrow>
   length (valid_cellid_list b) = length (valid_bcs_list b) \<Longrightarrow>
     length (valid_cellid_list b') = length (valid_bcs_list b')"
  by (auto simp: final_barcodes_def Let_def split: if_splits list.splits)

subsection \<open>Dictionaries and arrays filled by index\<close>

lemma fold_update_map_of:
  "map_of (fold (\<lambda>(k, v) acc. AList.update k (g v) acc) e d) k =
     (case map_of (rev e) k of Some v \<Rightarrow> Some (g v) | None \<Rightarrow> map_of d k)"
proof (induction e arbitrary: d)
  case Nil
  then show ?case by simp
next
  case (Cons p e)
  obtain k' v' where p: "p = (k', v')" by (cases p)
  show ?case
    by (simp add: p Cons.IH update_conv' map_add_def split: option.splits)
qed

lemma fold_update_distinct:
  "distinct (map fst d) \<Longrightarrow> distinct (map fst (fold (\<lambda>(k, v) acc. AList.update k (g v) acc) e d))"
proof (induction e arbitrary: d)
  case Nil
  then show ?case by simp
next
  case (Cons p e)
  obtain k' v' where p: "p = (k', v')" by (cases p)
  from Cons.prems have "distinct (map fst (AList.update k' (g v') d))"
    by (rule distinct_update)
  from Cons.IH[OF this] show ?case by (simp add: p)
qed

lemma dict_update_map_of:
  "map_of (dict_update d e) k = (case map_of (rev e) k of Some v \<Rightarrow> Some v | None \<Rightarrow> map_of d k)"
  unfolding dict_update_def using fold_update_map_of[of "\<lambda>v. v" e d k] by simp

lemma dict_update_distinct: "distinct (map fst d) \<Longrightarrow> distinct (map fst (dict_update d e))"
  unfolding dict_update_def using fold_update_distinct[of d "\<lambda>v. v" e] by simp

lemma column_attrs_map_of:
  "map_of (column_attrs cids add_ca sample) k =
     (case map_of (rev sample) k of
        Some v \<Rightarrow> Some (replicate (length cids) v)
      | None \<Rightarrow> map_of (dict_update [(''CellID'', map PyStr cids)] add_ca) k)"
  unfolding column_attrs_def by (rule fold_update_map_of)

lemma column_attrs_distinct: "distinct (map fst (column_attrs cids add_ca sample))"
  unfolding column_attrs_def
  by (rule fold_update_distinct) (simp add: dict_update_distinct)

lemma fold_fill_length:
  "length (fold (\<lambda>(i, x) acc. acc[i := f x]) ps acc) = length acc"
  by (induction ps arbitrary: acc) (auto split: prod.splits)

lemma fold_fill_nth:
  "k + length xs \<le> length acc \<Longrightarrow>
   fold (\<lambda>(i, x) acc. acc[i := f x]) (enumerate k xs) acc
     = take k acc @ map f xs @ drop (k + length xs) acc"
proof (induction xs arbitrary: k acc)
  case Nil
  then show ?case by simp
next
  case (Cons x xs)
  have k: "k < length acc" using Cons.prems by simp
  have "fold (\<lambda>(i, x) acc. acc[i := f x]) (enumerate k (x # xs)) acc
          = fold (\<lambda>(i, x) acc. acc[i := f x]) (enumerate (Suc k) xs) (acc[k := f x])"
    by simp
  also have "\<dots> = take (Suc k) (acc[k := f x]) @ map f xs @ drop (Suc k + length xs) (acc[k := f x])"
    using Cons.prems by (intro Cons.IH) simp
  also have "take (Suc k) (acc[k := f x]) = take k acc @ [f x]"
    using k by (simp add: take_Suc_conv_app_nth)
  also have "drop (Suc k + length xs) (acc[k := f x]) = drop (k + length (x # xs)) acc"
    by simp
  finally show ?case by simp
qed

lemma fill_array_map: "fill_array f xs (replicate (length xs) z) = map f xs"
  unfolding fill_array_def using fold_fill_nth[of 0 xs "replicate (length xs) z" f] by simp

lemma row_attrs_of_eq:
  "row_attrs_of gs =
     [(''Gene'', map (\<lambda>g. PyStr (genename g)) gs),
      (''Accession'', map (\<lambda>g. PyStr (geneid g)) gs),
      (''Chromosome'', map (\<lambda>g. PyStr (chrom g)) gs),
      (''Strand'', map (\<lambda>g. PyStr (strand g)) gs),
      (''Start'', map (\<lambda>g. PyInt (gene_start g)) gs),
      (''End'', map (\<lambda>g. PyInt (gene_end g)) gs)]"
  by (simp add: row_attrs_of_def atr_table_def fill_array_map)

subsection \<open>An empty barcode file\<close>

lemma str_nat_0: "str_nat 0 = ''0''"
  by code_simp

text \<open>
  C7. The claim is that a barcode file of zero lines gives a cell-identity list of length
  zero without an error at this stage. The code reads the file and logs the number of
  barcodes, and then the log message of line 59 takes the first barcode of the empty list:
  the stage, and with it the run, ends in \<^verbatim>\<open>IndexError\<close>.
\<close>

theorem empty_barcode_file_raises:
  "read_barcodes sample_env empty_args ''S1''
     = ([OpenRead ''empty.tsv'', Log DEBUG ''Read 0 cell barcodes from empty.tsv''], Inl IndexError)
   \<and> snd (run sample_env empty_args :: 16 word run_output result) = Inl IndexError"
  by (simp add: stage_defs py_defs sample_env_def sample_args_def empty_args_def
      gene_a_def gene_b_def and_then_def emit_def call_def raise_def str_nat_0)

subsection \<open>Metadata without a sample id\<close>

text \<open>
  C8. When no sample id is given and a metadata table is requested (the argument is not
  \<^verbatim>\<open>None\<close>), the run ends in the \<^verbatim>\<open>AssertionError\<close> of line 40 with an empty trace:
  nothing has happened before it, in particular no call of the counting engine.
\<close>

theorem metadata_needs_sampleid:
  assumes "sampleid a = None" and "metadatatable a \<noteq> None"
  shows "(run env a :: 'a::len word run_output result) = ([], Inl AssertionError)
         \<and> \<not> list_ex counting_work (fst (run env a :: 'a word run_output result))"
proof -
  from assms have "resolve_sampleid env a = ([], Inl AssertionError)"
    by (simp add: resolve_sampleid_def raise_def)
  then have "(run env a :: 'a word run_output result) = ([], Inl AssertionError)"
    by (simp add: run_def and_then_def)
  then show ?thesis by simp
qed

theorem metadata_needs_sampleid_witness:
  "sampleid anonymous_args = None \<and> metadatatable anonymous_args \<noteq> None
   \<and> (run sample_env anonymous_args :: 16 word run_output result) = ([], Inl AssertionError)"
proof -
  have h: "sampleid anonymous_args = None" "metadatatable anonymous_args \<noteq> None"
    by (simp_all add: anonymous_args_def sample_args_def)
  from metadata_needs_sampleid[OF h, of sample_env, where 'a = 16] h show ?thesis by simp
qed

subsection \<open>Metadata columns\<close>

lemma fst_and_then:
  "fst (and_then m f) = (case snd m of Inl e \<Rightarrow> fst m | Inr x \<Rightarrow> fst m @ fst (f x))"
  by (simp add: and_then_def split: sum.splits)

lemma resolve_sampleid_quiet: "\<not> list_ex counting_work (fst (resolve_sampleid env a))"
  by (simp add: resolve_sampleid_def Let_def split: option.splits)

lemma resolve_outputfolder_quiet: "\<not> list_ex counting_work (fst (resolve_outputfolder env a))"
  by (simp add: resolve_outputfolder_def fst_and_then Let_def split: option.splits sum.splits)

lemma read_barcodes_quiet: "\<not> list_ex counting_work (fst (read_barcodes env a sid))"
  by (simp add: read_barcodes_def fst_and_then Let_def split: option.splits sum.splits list.splits)

lemma get_metadata_quiet: "\<not> list_ex counting_work (fst (get_metadata env a sid))"
  by (simp add: get_metadata_def split: option.splits sum.splits)

lemma map_of_rev_distinct:
  assumes "distinct (map fst xs)" and "(k, v) \<in> set xs"
  shows "map_of (rev xs) k = Some v"
proof -
  from assms(1) have "distinct (map fst (rev xs))" by (simp add: rev_map[symmetric])
  moreover from assms(2) have "(k, v) \<in> set (rev xs)" by simp
  ultimately show ?thesis by (rule map_of_is_SomeI)
qed

lemma run_col_attrs:
  assumes "snd (run env a) = Inr out"
  shows "\<exists>sid. snd (resolve_sampleid env a) = Inr sid
           \<and> snd (get_metadata env a sid) = Inr (out_sample out)
           \<and> col_attrs (loom_file out)
               = column_attrs (valid_cellid_list (final_cells out)) (additional_ca a) (out_sample out)"
proof -
  from assms obtain sid outf b sample ex b' where
    rs: "snd (resolve_sampleid env a) = Inr sid" and
    gm: "snd (get_metadata env a sid) = Inr sample" and
    asm: "snd (assemble a sid outf b' sample (genes env ex)) = Inr out"
    by (rule run_InrD)
  from asm have "final_cells out = b'" "out_sample out = sample"
    "col_attrs (loom_file out) = column_attrs (valid_cellid_list b') (additional_ca a) sample"
    by (auto elim: assemble_InrD)
  with rs gm show ?thesis by auto
qed

text \<open>
  C10. In the column attributes of a run that returns, every metadata field is a column
  holding that field's value once per cell, whatever stood under its name before (the
  \<^verbatim>\<open>CellID\<close> column and the caller's \<^verbatim>\<open>additional_ca\<close> included), and every name that is
  not a metadata field has the column it had before the metadata were merged, that is in
  \<^verbatim>\<open>CellID\<close> updated with \<^verbatim>\<open>additional_ca\<close>.
\<close>

theorem metadata_merged_last:
  assumes "snd (run env a) = Inr out" and "distinct (map fst (out_sample out))"
  shows "(\<forall>(k, v) \<in> set (out_sample out).
            map_of (col_attrs (loom_file out)) k
              = Some (replicate (length (valid_cellid_list (final_cells out))) v))
       \<and> (\<forall>k. k \<notin> fst ` set (out_sample out) \<longrightarrow>
            map_of (col_attrs (loom_file out)) k
              = map_of (dict_update [(''CellID'', map PyStr (valid_cellid_list (final_cells out)))]
                          (additional_ca a)) k)"
proof -
  from run_col_attrs[OF assms(1)] have
    ca: "col_attrs (loom_file out)
           = column_attrs (valid_cellid_list (final_cells out)) (additional_ca a) (out_sample out)"
    by blast
  have "map_of (col_attrs (loom_file out)) k
          = Some (replicate (length (valid_cellid_list (final_cells out))) v)"
    if "(k, v) \<in> set (out_sample out)" for k v
    using map_of_rev_distinct[OF assms(2) that] by (simp add: ca column_attrs_map_of)
  moreover have "map_of (col_attrs (loom_file out)) k
          = map_of (dict_update [(''CellID'', map PyStr (valid_cellid_list (final_cells out)))]
                      (additional_ca a)) k"
    if "k \<notin> fst ` set (out_sample out)" for k
  proof -
    from that have "map_of (rev (out_sample out)) k = None"
      by (metis map_of_eq_None_iff set_rev)
    then show ?thesis by (simp add: ca column_attrs_map_of)
  qed
  ultimately show ?thesis by auto
qed

theorem metadata_merged_last_witness:
  "snd (run sample_env sample_args) = Inr sample_out
   \<and> distinct (map fst (out_sample sample_out))
   \<and> out_sample sample_out = [(''Age'', PyInt 3), (''CellID'', PyStr ''x'')]
   \<and> map_of (col_attrs (loom_file sample_out)) ''CellID'' = Some [PyStr ''x'', PyStr ''x'']
   \<and> map_of (col_attrs (loom_file sample_out)) ''Clusters'' = Some [PyInt 1, PyInt 2]"
proof -
  have d: "distinct (map fst (out_sample sample_out))"
    by (simp add: sample_out_def)
  have m: "(''CellID'', PyStr ''x'') \<in> set (out_sample sample_out)"
    "''Clusters'' \<notin> fst ` set (out_sample sample_out)"
    by (simp_all add: sample_out_def)
  from metadata_merged_last[OF sample_run d] m
  have "map_of (col_attrs (loom_file sample_out)) ''CellID''
          = Some (replicate (length (valid_cellid_list (final_cells sample_out))) (PyStr ''x''))"
    and "map_of (col_attrs (loom_file sample_out)) ''Clusters''
          = map_of (dict_update [(''CellID'', map PyStr (valid_cellid_list (final_cells sample_out)))]
                      (additional_ca sample_args)) ''Clusters''"
    by auto
  then show ?thesis using sample_run d
    by (simp add: sample_out_def sample_cells_def sample_args_def dict_update_def)
qed

subsection \<open>The sample-sheet lookup by the number of rows\<close>

lemma run_upto_metadata:
  assumes "snd (resolve_sampleid env a) = Inr sid"
    and "snd (resolve_outputfolder env a) = Inr outf"
    and "snd (read_barcodes env a sid) = Inr bcs"
    and "snd (get_metadata env a sid) = Inl e"
  shows "snd (run env a) = Inl e"
    and "fst (run env a) = fst (resolve_sampleid env a) @ fst (resolve_outputfolder env a)
           @ fst (read_barcodes env a sid) @ fst (get_metadata env a sid)"
  using assms by (simp_all add: run_def snd_and_then fst_and_then)

lemma column_attrs_broadcast:
  assumes "distinct (map fst sample)" and "(k, v) \<in> set sample"
  shows "map_of (column_attrs cids add_ca sample) k = Some (replicate (length cids) v)"
  using map_of_rev_distinct[OF assms] by (simp add: column_attrs_map_of)

text \<open>
  C4. Let a non-empty metadata table be given, let the stages before the lookup succeed,
  and let the lookup of the sample id return its rows. With no row, the lookup logs an
  error, yields the empty mapping, and a run that returns has the column attributes of
  \<^verbatim>\<open>CellID\<close> and \<^verbatim>\<open>additional_ca\<close> only. With exactly one row (a \<^verbatim>\<open>dict\<close>, its keys
  distinct), the mapping is that row, and a run that returns has every field of the row as
  a column with the field's value once per cell. With more than one row, the run ends in
  \<^verbatim>\<open>SystemExit(1)\<close> before any call of the counting engine.
\<close>

theorem metadata_lookup_by_row_count:
  assumes "metadatatable a = Some t" and "t \<noteq> []"
    and "snd (resolve_sampleid env a) = Inr sid"
    and "snd (resolve_outputfolder env a) = Inr outf"
    and "snd (read_barcodes env a sid) = Inr bcs"
    and "metadata_where env t ''SampleID'' sid = Inr sample_rows"
  shows
    "(sample_rows = [] \<longrightarrow>
        get_metadata env a sid
          = ([MetadataLookup t sid,
              Log ERROR (''Sample ID '' @ sid @ '' not found in sample sheet''),
              Log DEBUG (''Collecting column attributes from '' @ t)], Inr [])
      \<and> (\<forall>out. snd (run env a :: 'a::len word run_output result) = Inr out \<longrightarrow>
            col_attrs (loom_file out)
              = dict_update [(''CellID'', map PyStr (valid_cellid_list (final_cells out)))]
                  (additional_ca a)))
   \<and> (\<forall>row. sample_rows = [row] \<and> distinct (map fst row) \<longrightarrow>
        snd (get_metadata env a sid) = Inr row
      \<and> (\<forall>out. snd (run env a :: 'a word run_output result) = Inr out \<longrightarrow>
            (\<forall>(k, v) \<in> set row.
               map_of (col_attrs (loom_file out)) k
                 = Some (replicate (length (valid_cellid_list (final_cells out))) v))))
   \<and> (length sample_rows > 1 \<longrightarrow>
        snd (run env a :: 'a word run_output result) = Inl (SystemExit 1)
      \<and> \<not> list_ex counting_work (fst (run env a :: 'a word run_output result)))"
proof (intro conjI impI allI)
  assume none: "sample_rows = []"
  with assms show gm: "get_metadata env a sid
          = ([MetadataLookup t sid,
              Log ERROR (''Sample ID '' @ sid @ '' not found in sample sheet''),
              Log DEBUG (''Collecting column attributes from '' @ t)], Inr [])"
    by (simp add: get_metadata_def emit_def ok_def)
  fix out :: "'a word run_output"
  assume run: "snd (run env a) = Inr out"
  from run_col_attrs[OF run] assms(3) gm have "out_sample out = []"
    and "col_attrs (loom_file out)
           = column_attrs (valid_cellid_list (final_cells out)) (additional_ca a) (out_sample out)"
    by auto
  then show "col_attrs (loom_file out)
              = dict_update [(''CellID'', map PyStr (valid_cellid_list (final_cells out)))]
                  (additional_ca a)"
    by (simp add: column_attrs_def)
next
  fix row
  assume one: "sample_rows = [row] \<and> distinct (map fst row)"
  with assms show gm: "snd (get_metadata env a sid) = Inr row"
    by (simp add: get_metadata_def)
  fix out :: "'a word run_output"
  assume run: "snd (run env a) = Inr out"
  from run_col_attrs[OF run] assms(3) gm have sample: "out_sample out = row"
    and ca: "col_attrs (loom_file out)
           = column_attrs (valid_cellid_list (final_cells out)) (additional_ca a) (out_sample out)"
    by auto
  from one have d: "distinct (map fst row)" by simp
  show "\<forall>(k, v) \<in> set row.
          map_of (col_attrs (loom_file out)) k
            = Some (replicate (length (valid_cellid_list (final_cells out))) v)"
    using column_attrs_broadcast[OF d] by (auto simp: ca sample)
next
  assume many: "length sample_rows > 1"
  then have "sample_rows \<noteq> []" by auto
  with many assms have gm: "snd (get_metadata env a sid) = Inl (SystemExit 1)"
    by (simp add: get_metadata_def)
  from run_upto_metadata(1)[OF assms(3,4,5) gm]
  show "snd (run env a :: 'a word run_output result) = Inl (SystemExit 1)" .
  have "fst (run env a :: 'a word run_output result)
          = fst (resolve_sampleid env a) @ fst (resolve_outputfolder env a)
            @ fst (read_barcodes env a sid) @ fst (get_metadata env a sid)"
    by (rule run_upto_metadata(2)[OF assms(3,4,5) gm])
  then show "\<not> list_ex counting_work (fst (run env a :: 'a word run_output result))"
    using resolve_sampleid_quiet[of env a] resolve_outputfolder_quiet[of env a]
      read_barcodes_quiet[of env a sid] get_metadata_quiet[of env a sid]
    by (auto simp: list_ex_iff)
qed

theorem metadata_lookup_by_row_count_witness:
  "get_metadata sample_env unknown_args ''S0''
     = ([MetadataLookup ''sheet.csv'' ''S0'',
         Log ERROR (''Sample ID '' @ ''S0'' @ '' not found in sample sheet''),
         Log DEBUG (''Collecting column attributes from '' @ ''sheet.csv'')], Inr [])
   \<and> snd (get_metadata sample_env sample_args ''S1'') = Inr [(''Age'', PyInt 3), (''CellID'', PyStr ''x'')]
   \<and> map_of (col_attrs (loom_file sample_out)) ''Age'' = Some [PyInt 3, PyInt 3]
   \<and> snd (run sample_env twice_args :: 16 word run_output result) = Inl (SystemExit 1)
   \<and> \<not> list_ex counting_work (fst (run sample_env twice_args :: 16 word run_output result))"
proof -
  have t: "''sheet.csv'' \<noteq> []" by simp
  have of0: "snd (resolve_outputfolder sample_env unknown_args) = Inr ''/data/s1/velocyto''"
    and of1: "snd (resolve_outputfolder sample_env sample_args) = Inr ''/data/s1/velocyto''"
    and of2: "snd (resolve_outputfolder sample_env twice_args) = Inr ''/data/s1/velocyto''"
    by (simp_all add: resolve_outputfolder_def snd_and_then Let_def py_defs sample_env_def
        sample_args_def unknown_args_def twice_args_def)
  obtain b0 b1 b2 where
    rb0: "snd (read_barcodes sample_env unknown_args ''S0'') = Inr b0" and
    rb1: "snd (read_barcodes sample_env sample_args ''S1'') = Inr b1" and
    rb2: "snd (read_barcodes sample_env twice_args ''S2'') = Inr b2"
    by (simp add: read_barcodes_def snd_and_then Let_def py_defs sample_env_def
        sample_args_def unknown_args_def twice_args_def)
  have zero: "get_metadata sample_env unknown_args ''S0''
     = ([MetadataLookup ''sheet.csv'' ''S0'',
         Log ERROR (''Sample ID '' @ ''S0'' @ '' not found in sample sheet''),
         Log DEBUG (''Collecting column attributes from '' @ ''sheet.csv'')], Inr [])"
    using metadata_lookup_by_row_count[of unknown_args "''sheet.csv''" sample_env "''S0''"
        "''/data/s1/velocyto''" b0 "[]", where 'a = 16, OF _ t _ of0 rb0]
    by (simp add: unknown_args_def sample_args_def sample_env_def resolve_sampleid_def)
  have one: "snd (get_metadata sample_env sample_args ''S1'')
               = Inr [(''Age'', PyInt 3), (''CellID'', PyStr ''x'')]
             \<and> map_of (col_attrs (loom_file sample_out)) ''Age'' = Some [PyInt 3, PyInt 3]"
    using metadata_lookup_by_row_count[of sample_args "''sheet.csv''" sample_env "''S1''"
        "''/data/s1/velocyto''" b1 "[[(''Age'', PyInt 3), (''CellID'', PyStr ''x'')]]",
        where 'a = 16, OF _ t _ of1 rb1] sample_run
    by (simp add: sample_args_def sample_env_def resolve_sampleid_def sample_out_def
        sample_cells_def)
  have many: "snd (run sample_env twice_args :: 16 word run_output result) = Inl (SystemExit 1)
      \<and> \<not> list_ex counting_work (fst (run sample_env twice_args :: 16 word run_output result))"
    using metadata_lookup_by_row_count[of twice_args "''sheet.csv''" sample_env "''S2''"
        "''/data/s1/velocyto''" b2 "[[(''Age'', PyInt 3)], [(''Age'', PyInt 4)]]",
        where 'a = 16, OF _ t _ of2 rb2]
    by (simp add: twice_args_def sample_args_def sample_env_def resolve_sampleid_def)
  from zero one many show ?thesis by simp
qed

subsection \<open>The structural statistics\<close>

lemma fold_fill_intervals:
  "fold (\<lambda>(j, ivl) (t, l, v). (t[j := f1 ivl], l[j := f2 ivl], v[j := f3 ivl])) ps (t, l, v)
     = (fold (\<lambda>(j, x) acc. acc[j := f1 x]) ps t,
        fold (\<lambda>(j, x) acc. acc[j := f2 x]) ps l,
        fold (\<lambda>(j, x) acc. acc[j := f3 x]) ps v)"
  by (induction ps arbitrary: t l v) (auto split: prod.splits)

lemma fill_intervals_eq:
  "fill_intervals ivs =
     (map (\<lambda>i. take 3 (ivltype i)) ivs,
      map (\<lambda>i. word_of_int \<bar>ivl_end i - ivl_start i\<bar>) ivs,
      map is_sure_valid_intron ivs)"
  unfolding fill_intervals_def fold_fill_intervals
  by (simp add: fill_array_map[unfolded fill_array_def])

lemma gene_stats_InrD:
  assumes "gene_stats g = Inr grp"
  shows "reads_per_ivl grp = [ivljunction5_read_counts g, ivlinside_read_counts g,
                              ivljunction3_read_counts g]"
    and "list_all (\<lambda>r. length r = length (ivljunction5_read_counts g)) (reads_per_ivl grp)"
    and "ivls_type grp = map (\<lambda>i. take 3 (ivltype i)) (ivls g)"
    and "ivls_len grp = map (\<lambda>i. word_of_int \<bar>ivl_end i - ivl_start i\<bar>) (ivls g)"
    and "valid_intron grp = map is_sure_valid_intron (ivls g)"
  using assms
  by (auto simp: gene_stats_def fill_intervals_eq row_stack_def split: if_splits)

lemma write_stats_InrD:
  assumes "write_stats gs h5 = Inr h5'" and "distinct (map fst h5)"
  shows "h5' = h5 @ map (\<lambda>g. (geneid g, projr (gene_stats g))) gs
         \<and> distinct (map fst h5')
         \<and> (\<forall>g \<in> set gs. \<exists>grp. gene_stats g = Inr grp)"
  using assms
proof (induction gs arbitrary: h5)
  case Nil
  then show ?case by simp
next
  case (Cons g gs)
  from Cons.prems(1) obtain grp where
    fresh: "map_of h5 (geneid g) = None" and
    grp: "gene_stats g = Inr grp" and
    rest: "write_stats gs (h5 @ [(geneid g, grp)]) = Inr h5'"
    by (auto split: if_splits sum.splits)
  from fresh have "geneid g \<notin> fst ` set h5" by (simp add: map_of_eq_None_iff)
  with Cons.prems(2) have "distinct (map fst (h5 @ [(geneid g, grp)]))" by simp
  from Cons.IH[OF rest this] have
    eq: "h5' = (h5 @ [(geneid g, grp)]) @ map (\<lambda>g. (geneid g, projr (gene_stats g))) gs" and
    dist: "distinct (map fst h5')" and
    all: "\<forall>g \<in> set gs. \<exists>grp. gene_stats g = Inr grp"
    by blast+
  from eq grp have "h5' = h5 @ map (\<lambda>g. (geneid g, projr (gene_stats g))) (g # gs)"
    by simp
  moreover from all grp have "\<forall>g' \<in> set (g # gs). \<exists>grp. gene_stats g' = Inr grp"
    by simp
  ultimately show ?case using dist by blast
qed

text \<open>
  C9, as stated, fails for the interval lengths: \<^verbatim>\<open>ivls_len\<close> is an array of dtype
  \<^verbatim>\<open>uint32\<close>. An interval from 0 to \<open>2^32\<close> has the length 4294967296, and the array
  holds 0 for it.
\<close>

theorem interval_length_counterexample:
  "map_sum id (map (\<lambda>(k, grp). (k, ivls_len grp)) \<circ> mapstats)
     (snd (run long_env sample_args :: 16 word run_output result))
       = Inr [(''ENSG01'', [200, 350]), (''ENSG02'', [0])]
   \<and> map (\<lambda>i. \<bar>ivl_end i - ivl_start i\<bar>) (ivls long_gene) = [4294967296]"
  by (simp add: stage_defs py_defs sample_env_def sample_args_def long_env_def long_gene_def
      gene_a_def gene_b_def)

text \<open>
  C9, amended. For a run that returns, the statistics file has one group per gene, in the
  genes' order and keyed by the gene ids, which are distinct. For a gene whose read-count
  arrays have one entry per interval, the group holds the matrix whose three rows are the
  junction5, inside and junction3 read counts, each with one column per interval; the
  first three bytes of each interval's type; each interval's length \<open>|end - start|\<close>
  reduced modulo \<open>2^32\<close>; and each interval's valid-intron flag, all in the order of the
  gene's intervals.
\<close>

theorem structural_statistics_groups:
  assumes "snd (run env a) = Inr out" and "g \<in> set (out_genes out)"
    and "length (ivljunction5_read_counts g) = length (ivls g)"
  shows "map fst (mapstats out) = map geneid (out_genes out)
       \<and> distinct (map fst (mapstats out))
       \<and> (\<exists>grp. map_of (mapstats out) (geneid g) = Some grp
            \<and> reads_per_ivl grp = [ivljunction5_read_counts g, ivlinside_read_counts g,
                                    ivljunction3_read_counts g]
            \<and> list_all (\<lambda>r. length r = length (ivls g)) (reads_per_ivl grp)
            \<and> ivls_type grp = map (\<lambda>i. take 3 (ivltype i)) (ivls g)
            \<and> map uint (ivls_len grp) = map (\<lambda>i. \<bar>ivl_end i - ivl_start i\<bar> mod 2 ^ 32) (ivls g)
            \<and> valid_intron grp = map is_sure_valid_intron (ivls g))"
proof -
  from assms(1) obtain sid outf b sample ex where
    asm: "snd (assemble a sid outf b sample (genes env ex)) = Inr out"
    by (rule run_InrD)
  from asm obtain h5 where
    ws: "write_stats (genes env ex) [] = Inr h5" and
    out: "out_genes out = genes env ex" "mapstats out = h5"
    by (rule assemble_InrD)
  have "distinct (map fst ([] :: (string \<times> stats_group) list))" by simp
  from write_stats_InrD[OF ws this] have
    h5': "h5 = [] @ map (\<lambda>g. (geneid g, projr (gene_stats g))) (genes env ex)" and
    dist: "distinct (map fst h5)" and
    all': "\<forall>g \<in> set (genes env ex). \<exists>grp. gene_stats g = Inr grp"
    by blast+
  from h5' out have h5: "h5 = map (\<lambda>g. (geneid g, projr (gene_stats g))) (out_genes out)"
    by simp
  from all' out have all: "\<forall>g \<in> set (out_genes out). \<exists>grp. gene_stats g = Inr grp"
    by simp
  from all assms(2) obtain grp where grp: "gene_stats g = Inr grp" by blast
  with h5 assms(2) have "(geneid g, grp) \<in> set h5" by force
  with dist have look: "map_of h5 (geneid g) = Some grp" by (rule map_of_is_SomeI)
  have keys: "map fst h5 = map geneid (out_genes out)"
    by (subst h5) (simp add: comp_def)
  have len: "map uint (ivls_len grp) = map (\<lambda>i. \<bar>ivl_end i - ivl_start i\<bar> mod 2 ^ 32) (ivls g)"
    by (simp add: gene_stats_InrD(4)[OF grp] uint_word_of_int comp_def)
  have "list_all (\<lambda>r. length r = length (ivls g)) (reads_per_ivl grp)"
    using gene_stats_InrD(2)[OF grp] assms(3) by simp
  with gene_stats_InrD(1,3,5)[OF grp] look keys dist len out(2) show ?thesis
    by blast
qed

theorem structural_statistics_groups_witness:
  "snd (run sample_env sample_args) = Inr sample_out
   \<and> map fst (mapstats sample_out) = [''ENSG01'', ''ENSG02'']
   \<and> map_of (mapstats sample_out) (geneid gene_a)
       = Some \<lparr>reads_per_ivl = [[1, 0], [7, 2], [0, 3]], ivls_type = [''e'', ''i''],
               ivls_len = [200, 350], valid_intron = [False, True]\<rparr>
   \<and> map (\<lambda>i. \<bar>ivl_end i - ivl_start i\<bar> mod 2 ^ 32) (ivls gene_a) = [200, 350]"
proof -
  have g: "gene_a \<in> set (out_genes sample_out)"
    by (simp add: sample_out_def)
  have n: "length (ivljunction5_read_counts gene_a) = length (ivls gene_a)"
    by (simp add: gene_a_def)
  from structural_statistics_groups[OF sample_run g n] sample_run show ?thesis
    by (simp add: sample_out_def gene_a_def gene_b_def)
qed

subsection \<open>The total matrix\<close>

lemma unat_sum3:
  "unat (x + y + z :: 'a::len word) = (unat x + unat y + unat z) mod 2 ^ LENGTH('a)"
  by (simp add: unat_word_ariths mod_simps)

lemma nth_rows_float32:
  assumes "well_shaped m" and "i < fst (shape m)" and "j < snd (shape m)"
  shows "map (map f) (rows m) ! i ! j = f (rows m ! i ! j)"
  using assms by (simp add: well_shaped_def list_all_iff)

text \<open>
  C1, as stated, fails: the layers are arrays of unsigned machine integers and their sum
  is taken in that type. With 16-bit layers, 65535 spliced molecules and one unspliced
  molecule of the first gene in the first cell give the total 0 there, not 65536.
\<close>

theorem total_wraps_counterexample:
  "map_sum id (map (\<lambda>(k, m). (k, rows m)) \<circ> layers \<circ> loom_file)
     (snd (run busy_env sample_args :: 16 word run_output result))
       = Inr [(''spliced'', [[65535, 0], [5, 1]]), (''unspliced'', [[1, 2], [0, 0]]),
              (''ambiguous'', [[0, 4], [2, 0]])]
   \<and> map_sum id (rows \<circ> matrix \<circ> loom_file)
     (snd (run busy_env sample_args :: 16 word run_output result))
       = Inr [[F32 0, F32 6], [F32 7, F32 1]]
   \<and> (65535 :: nat) + 1 + 0 \<noteq> 0"
  by (simp add: stage_defs py_defs sample_env_def sample_args_def busy_env_def busy_gene_def
      gene_a_def gene_b_def)

text \<open>
  C1, amended. A run that returns stores exactly the three layers \<^verbatim>\<open>spliced\<close>,
  \<^verbatim>\<open>unspliced\<close> and \<^verbatim>\<open>ambiguous\<close> beside the primary matrix, all four of one shape.
  Every entry of the primary matrix is the sum of the three layers' entries at that gene
  row and cell column, reduced modulo \<open>2^w\<close> for the width \<open>w\<close> of the layers' unsigned
  element type and then converted to a 32-bit float; it is the sum itself whenever the
  sum is below \<open>2^w\<close> and below \<open>2^24\<close>.
\<close>

theorem total_is_wrapped_sum_of_layers:
  assumes "snd (run env a) = Inr (out :: 'a::len word run_output)"
  shows "\<exists>spliced unspliced ambiguous.
           layers (loom_file out) =
             [(''spliced'', spliced), (''unspliced'', unspliced), (''ambiguous'', ambiguous)]
         \<and> well_shaped (matrix (loom_file out)) \<and> well_shaped spliced
         \<and> well_shaped unspliced \<and> well_shaped ambiguous
         \<and> shape spliced = shape (matrix (loom_file out))
         \<and> shape unspliced = shape (matrix (loom_file out))
         \<and> shape ambiguous = shape (matrix (loom_file out))
         \<and> (\<forall>i < fst (shape (matrix (loom_file out))). \<forall>j < snd (shape (matrix (loom_file out))).
               rows (matrix (loom_file out)) ! i ! j
                 = to_float32 ((unat (rows spliced ! i ! j) + unat (rows unspliced ! i ! j)
                                + unat (rows ambiguous ! i ! j)) mod 2 ^ LENGTH('a))
             \<and> (unat (rows spliced ! i ! j) + unat (rows unspliced ! i ! j)
                   + unat (rows ambiguous ! i ! j) < 2 ^ LENGTH('a)
                \<and> unat (rows spliced ! i ! j) + unat (rows unspliced ! i ! j)
                   + unat (rows ambiguous ! i ! j) < 2 ^ 24
                \<longrightarrow> rows (matrix (loom_file out)) ! i ! j
                      = F32 (unat (rows spliced ! i ! j) + unat (rows unspliced ! i ! j)
                             + unat (rows ambiguous ! i ! j))))"
proof -
  from assms obtain sid outf b sample ex where
    asm: "snd (assemble a sid outf b sample (genes env ex)) = Inr out"
    by (rule run_InrD)
  let ?sh = "(length (genes env ex), length (valid_bcs_list b))"
  from asm obtain spliced unspliced ambiguous :: "'a word matrix" where
    fill: "fill_layers (enumerate 0 (genes env ex)) (zeros ?sh, zeros ?sh, zeros ?sh)
             = Inr (spliced, unspliced, ambiguous)" and
    stored: "matrix (loom_file out) =
       \<lparr>shape = shape (mat_add (mat_add spliced unspliced) ambiguous),
        rows = map (map (\<lambda>x. to_float32 (unat x)))
                 (rows (mat_add (mat_add spliced unspliced) ambiguous))\<rparr>" and
    lay: "layers (loom_file out) =
            [(''spliced'', spliced), (''unspliced'', unspliced), (''ambiguous'', ambiguous)]"
    by (rule assemble_InrD)
  let ?total = "mat_add (mat_add spliced unspliced) ambiguous"
  from fill_layers_shape[OF fill well_shaped_zeros well_shaped_zeros well_shaped_zeros]
  have ws: "well_shaped spliced" "well_shaped unspliced" "well_shaped ambiguous"
    and sh: "shape spliced = ?sh" "shape unspliced = ?sh" "shape ambiguous = ?sh"
    by (simp_all add: zeros_def)
  have su: "well_shaped (mat_add spliced unspliced)" "shape (mat_add spliced unspliced) = ?sh"
    using mat_add_shape[OF ws(1) ws(2)] sh by simp_all
  have tot: "well_shaped ?total" "shape ?total = ?sh"
    using mat_add_shape[OF su(1) ws(3)] su(2) sh by simp_all
  have pm: "well_shaped (matrix (loom_file out))" "shape (matrix (loom_file out)) = ?sh"
    using tot by (simp_all add: stored well_shaped_def list_all_iff)
  have entry: "rows (matrix (loom_file out)) ! i ! j
                 = to_float32 ((unat (rows spliced ! i ! j) + unat (rows unspliced ! i ! j)
                                + unat (rows ambiguous ! i ! j)) mod 2 ^ LENGTH('a))"
    if ij: "i < fst ?sh" "j < snd ?sh" for i j
  proof -
    have "rows ?total ! i ! j = rows (mat_add spliced unspliced) ! i ! j + rows ambiguous ! i ! j"
      using mat_add_nth[OF su(1) ws(3)] su(2) sh ij by simp
    also have "rows (mat_add spliced unspliced) ! i ! j
                 = rows spliced ! i ! j + rows unspliced ! i ! j"
      using mat_add_nth[OF ws(1) ws(2)] sh ij by simp
    finally have "unat (rows ?total ! i ! j)
        = (unat (rows spliced ! i ! j) + unat (rows unspliced ! i ! j)
           + unat (rows ambiguous ! i ! j)) mod 2 ^ LENGTH('a)"
      by (simp add: unat_sum3)
    moreover have "rows (matrix (loom_file out)) ! i ! j = to_float32 (unat (rows ?total ! i ! j))"
      using nth_rows_float32[OF tot(1), of i j "\<lambda>x. to_float32 (unat x)"] tot(2) ij
      by (simp add: stored)
    ultimately show ?thesis by simp
  qed
  have exact: "rows (matrix (loom_file out)) ! i ! j
                 = F32 (unat (rows spliced ! i ! j) + unat (rows unspliced ! i ! j)
                        + unat (rows ambiguous ! i ! j))"
    if ij: "i < fst ?sh" "j < snd ?sh"
      and small: "unat (rows spliced ! i ! j) + unat (rows unspliced ! i ! j)
                   + unat (rows ambiguous ! i ! j) < 2 ^ LENGTH('a)"
        "unat (rows spliced ! i ! j) + unat (rows unspliced ! i ! j)
                   + unat (rows ambiguous ! i ! j) < 2 ^ 24" for i j
    using entry[OF ij] small by (simp add: to_float32_exact)
  show ?thesis
    using lay ws sh pm entry exact
    by (intro exI[of _ spliced] exI[of _ unspliced] exI[of _ ambiguous]) simp
qed

theorem total_is_wrapped_sum_of_layers_witness:
  "snd (run sample_env sample_args) = Inr sample_out
   \<and> layers (loom_file sample_out) =
       [(''spliced'', \<lparr>shape = (2, 2), rows = [[3, 0], [5, 1]]\<rparr>),
        (''unspliced'', \<lparr>shape = (2, 2), rows = [[1, 2], [0, 0]]\<rparr>),
        (''ambiguous'', \<lparr>shape = (2, 2), rows = [[0, 4], [2, 0]]\<rparr>)]
   \<and> rows (matrix (loom_file sample_out)) ! 0 ! 1 = F32 (0 + 2 + 4)"
proof -
  from total_is_wrapped_sum_of_layers[OF sample_run] obtain spliced unspliced ambiguous where
    lay: "layers (loom_file sample_out) =
       [(''spliced'', spliced), (''unspliced'', unspliced), (''ambiguous'', ambiguous)]" and
    sum: "\<forall>i < fst (shape (matrix (loom_file sample_out))).
          \<forall>j < snd (shape (matrix (loom_file sample_out))).
            unat (rows spliced ! i ! j) + unat (rows unspliced ! i ! j)
                   + unat (rows ambiguous ! i ! j) < 2 ^ LENGTH(16)
              \<and> unat (rows spliced ! i ! j) + unat (rows unspliced ! i ! j)
                   + unat (rows ambiguous ! i ! j) < 2 ^ 24
              \<longrightarrow> rows (matrix (loom_file sample_out)) ! i ! j
                    = F32 (unat (rows spliced ! i ! j) + unat (rows unspliced ! i ! j)
                           + unat (rows ambiguous ! i ! j))"
    by blast
  from lay have "spliced = \<lparr>shape = (2, 2), rows = [[3, 0], [5, 1]]\<rparr>"
    "unspliced = \<lparr>shape = (2, 2), rows = [[1, 2], [0, 0]]\<rparr>"
    "ambiguous = \<lparr>shape = (2, 2), rows = [[0, 4], [2, 0]]\<rparr>"
    by (simp_all add: sample_out_def)
  with sum[rule_format, of 0 1] lay sample_run show ?thesis
    by (simp add: sample_out_def)
qed

subsection \<open>Dimensions of the layers and of the attribute arrays\<close>

lemma ragged_run_raises:
  "snd (run sample_env ragged_args :: 16 word run_output result) = Inl ValueError"
  by (simp add: stage_defs py_defs sample_env_def sample_args_def ragged_args_def
      gene_a_def gene_b_def)

text \<open>
  C2. For a run that returns, the primary matrix and the three layers have as many rows as
  there are genes and as many columns as there are entries in the final cell-identity
  list; every row attribute has one entry per gene, and every column attribute has one
  entry per cell.
\<close>

theorem dimensions_agree:
  assumes "snd (run env a) = Inr out"
  shows "well_shaped (matrix (loom_file out))
       \<and> shape (matrix (loom_file out))
           = (length (out_genes out), length (valid_cellid_list (final_cells out)))
       \<and> map fst (layers (loom_file out)) = [''spliced'', ''unspliced'', ''ambiguous'']
       \<and> (\<forall>m \<in> set (map snd (layers (loom_file out))).
            well_shaped m
          \<and> shape m = (length (out_genes out), length (valid_cellid_list (final_cells out))))
       \<and> (\<forall>(k, arr) \<in> set (row_attrs (loom_file out)). length arr = length (out_genes out))
       \<and> (\<forall>(k, arr) \<in> set (col_attrs (loom_file out)).
            length arr = length (valid_cellid_list (final_cells out)))"
proof -
  from assms obtain sid outf b0 sample ex b where
    rb: "snd (read_barcodes env a sid) = Inr (Some b0)" and
    fb: "snd (final_barcodes env ex sid b0) = Inr b" and
    asm: "snd (assemble a sid outf b sample (genes env ex)) = Inr out"
    by (rule run_InrD)
  have len: "length (valid_cellid_list b) = length (valid_bcs_list b)"
    using final_barcodes_lengths[OF fb read_barcodes_lengths[OF rb]] .
  let ?gs = "genes env ex"
  let ?sh = "(length ?gs, length (valid_bcs_list b))"
  from asm obtain spliced unspliced ambiguous where
    fill: "fill_layers (enumerate 0 ?gs) (zeros ?sh, zeros ?sh, zeros ?sh)
             = Inr (spliced, unspliced, ambiguous)" and
    out: "final_cells out = b" "out_genes out = ?gs" and
    stored: "matrix (loom_file out) =
       \<lparr>shape = shape (mat_add (mat_add spliced unspliced) ambiguous),
        rows = map (map (\<lambda>x. to_float32 (unat x)))
                 (rows (mat_add (mat_add spliced unspliced) ambiguous))\<rparr>" and
    ra: "row_attrs (loom_file out) = row_attrs_of ?gs" and
    ca: "col_attrs (loom_file out) = column_attrs (valid_cellid_list b) (additional_ca a) sample" and
    lay: "layers (loom_file out) =
            [(''spliced'', spliced), (''unspliced'', unspliced), (''ambiguous'', ambiguous)]" and
    checked: "list_all (\<lambda>(k, v). length v = fst (shape (mat_add (mat_add spliced unspliced) ambiguous)))
                (row_attrs_of ?gs)"
      "list_all (\<lambda>(k, v). length v = snd (shape (mat_add (mat_add spliced unspliced) ambiguous)))
                (column_attrs (valid_cellid_list b) (additional_ca a) sample)"
    by (rule assemble_InrD)
  let ?total = "mat_add (mat_add spliced unspliced) ambiguous"
  from fill_layers_shape[OF fill well_shaped_zeros well_shaped_zeros well_shaped_zeros]
  have ws: "well_shaped spliced" "well_shaped unspliced" "well_shaped ambiguous"
    and sh: "shape spliced = ?sh" "shape unspliced = ?sh" "shape ambiguous = ?sh"
    by (simp_all add: zeros_def)
  have su: "well_shaped (mat_add spliced unspliced)" "shape (mat_add spliced unspliced) = ?sh"
    using mat_add_shape[OF ws(1) ws(2)] sh by simp_all
  have tot: "well_shaped ?total" "shape ?total = ?sh"
    using mat_add_shape[OF su(1) ws(3)] su(2) sh by simp_all
  have pm: "well_shaped (matrix (loom_file out))"
    "shape (matrix (loom_file out))
       = (length (out_genes out), length (valid_cellid_list (final_cells out)))"
    using tot out len by (simp_all add: stored well_shaped_def list_all_iff)
  have names: "map fst (layers (loom_file out)) = [''spliced'', ''unspliced'', ''ambiguous'']"
    using lay by simp
  have layers_ok: "\<forall>m \<in> set (map snd (layers (loom_file out))).
            well_shaped m
          \<and> shape m = (length (out_genes out), length (valid_cellid_list (final_cells out)))"
    using ws sh lay out len by simp
  have rows_ok: "\<forall>(k, arr) \<in> set (row_attrs (loom_file out)). length arr = length (out_genes out)"
    using checked(1) tot(2) ra out by (auto simp: list_all_iff)
  have cols_ok: "\<forall>(k, arr) \<in> set (col_attrs (loom_file out)).
            length arr = length (valid_cellid_list (final_cells out))"
    using checked(2) tot(2) ca out len by (auto simp: list_all_iff)
  from pm names layers_ok rows_ok cols_ok show ?thesis by blast
qed

theorem dimensions_agree_witness:
  "snd (run sample_env sample_args) = Inr sample_out
   \<and> shape (matrix (loom_file sample_out)) = (length [gene_a, gene_b], length [''S1:AAAC-1'', ''S1:CCGT-1''])
   \<and> map (length \<circ> snd) (row_attrs (loom_file sample_out)) = [2, 2, 2, 2, 2, 2]
   \<and> map (length \<circ> snd) (col_attrs (loom_file sample_out)) = [2, 2, 2]"
proof -
  from dimensions_agree[OF sample_run] sample_run show ?thesis
    by (simp add: sample_out_def sample_cells_def)
qed

subsection \<open>The form of the cell identities\<close>

lemma no_barcode_file_never_returns:
  assumes "bcfile a = None"
  shows "snd (run env a) \<noteq> Inr out"
proof
  assume "snd (run env a) = Inr out"
  then obtain sid b where "snd (read_barcodes env a sid) = Inr (Some b)"
    by (rule run_InrD)
  with assms show False by (simp add: read_barcodes_def)
qed

text \<open>
  C3. The claim is that in both modes every entry of the final cell-identity list is the
  sample id, a colon, the bare barcode and the suffix \<^verbatim>\<open>-1\<close>. With a barcode file, line 56
  joins the sample id and the line of the file as it stands, although its comment says
  \<^verbatim>\<open>with sample id and with -1\<close> and line 119 appends the suffix: for the lines \<^verbatim>\<open>ACGT\<close>
  and \<^verbatim>\<open>TTGA\<close> the bare barcodes are \<^verbatim>\<open>ACGT\<close> and \<^verbatim>\<open>TTGA\<close> and the identities are
  \<^verbatim>\<open>S1:ACGT\<close> and \<^verbatim>\<open>S1:TTGA\<close>. Without a barcode file, line 84 reads the variable
  \<^verbatim>\<open>valid_bcs2idx\<close> that nothing has bound, and the run ends in \<^verbatim>\<open>UnboundLocalError\<close>
  before any identity is formed.
\<close>

theorem cell_identity_suffix_missing:
  "map_sum id (valid_cellid_list \<circ> final_cells)
     (snd (run sample_env bare_args :: 16 word run_output result)) = Inr [''S1:ACGT'', ''S1:TTGA'']
   \<and> map_sum id (map fst \<circ> valid_bcs2idx \<circ> final_cells)
     (snd (run sample_env bare_args :: 16 word run_output result)) = Inr [''ACGT'', ''TTGA'']
   \<and> ''S1:ACGT'' \<noteq> ''S1'' @ '':'' @ ''ACGT'' @ ''-1''
   \<and> \<not> suffix ''-1'' ''S1:ACGT''
   \<and> snd (run sample_env discovered_args :: 16 word run_output result) = Inl UnboundLocalError"
  by (simp add: stage_defs py_defs sample_env_def sample_args_def bare_args_def
      discovered_args_def gene_a_def gene_b_def suffix_to_prefix)

section \<open>Properties of the batch dispatcher\<close>

lemmas dispatch_defs = multi10x_def visit_def examine_def launch_def arguments_def listdir_def
  children_def all_10X_dirs_def os_mkdir_def open_w_def os_path_exists_def is_dir_def
  re_match_def loom_pattern_def lit_def one_of_def spawned_def Let_def

lemma parentfolder_ignored:
  "multi10x (a\<lparr>parentfolder := p\<rparr>) raced fs = multi10x a raced fs"
proof -
  have g: "arguments (a\<lparr>parentfolder := p\<rparr>) s = arguments a s" for s
    by (simp add: arguments_def)
  have l: "launch (a\<lparr>parentfolder := p\<rparr>) s f n w = launch a s f n w" for s f n w
    by (simp add: launch_def g Let_def split: prod.splits option.splits)
  have e: "examine (a\<lparr>parentfolder := p\<rparr>) c s f n w = examine a c s f n w" for c s f n w
    by (simp add: examine_def l Let_def split: sum.splits)
  have v: "visit (a\<lparr>parentfolder := p\<rparr>) raced d n w = visit a raced d n w" for d n w
    by (simp add: visit_def e Let_def split: option.splits prod.splits)
  have "dispatch (a\<lparr>parentfolder := p\<rparr>) raced ds n w = dispatch a raced ds n w" for ds n w
    by (induction ds arbitrary: n w) (simp_all add: v split: prod.splits sum.splits)
  then show ?thesis by (simp add: multi10x_def)
qed

lemma launch_spawned:
  assumes "launch a sample_id name_log_file n fs = (evs, fs', r)"
  shows "spawned evs \<le> 1
         \<and> (case r of Inr n' \<Rightarrow> spawned evs = 1 \<and> n' = n + 1 \<and> n + 1 < number a | Inl e \<Rightarrow> True)"
  using assms
  by (auto simp: launch_def Let_def spawned_def split: prod.splits option.splits if_splits)

lemma examine_spawned:
  assumes "examine a vc_dir sample_id name_log_file n fs = (evs, fs', r)"
  shows "spawned evs \<le> 1
         \<and> (case r of
               Inr n' \<Rightarrow> (spawned evs = 0 \<and> n' = n)
                        \<or> (spawned evs = 1 \<and> n' = n + 1 \<and> n + 1 < number a)
             | Inl e \<Rightarrow> True)"
proof (cases "listdir fs vc_dir")
  case (Inl e)
  with assms show ?thesis by (auto simp: examine_def spawned_def)
next
  case (Inr names)
  show ?thesis
  proof (cases "filter (re_match loom_pattern) names = [] \<and> \<not> os_path_exists fs name_log_file")
    case True
    with Inr assms have "launch a sample_id name_log_file n fs = (evs, fs', r)"
      by (simp add: examine_def)
    from launch_spawned[OF this] show ?thesis by (auto split: sum.splits)
  next
    case False
    with Inr assms show ?thesis by (auto simp: examine_def spawned_def)
  qed
qed

lemma visit_spawned:
  assumes "visit a raced dir_i n fs = (evs, fs', r)"
  shows "spawned evs \<le> 1
         \<and> (case r of
               Inr n' \<Rightarrow> (spawned evs = 0 \<and> n' = n)
                        \<or> (spawned evs = 1 \<and> n' = n + 1 \<and> n + 1 < number a)
             | Inl e \<Rightarrow> True)"
proof (cases "logfolder a")
  case None
  with assms show ?thesis by (auto simp: visit_def spawned_def)
next
  case (Some lf)
  let ?vc = "dir_i @ ''/velocyto''"
  let ?sid = "split_last CHR ''/'' dir_i"
  let ?log = "path_join lf (''nohup_'' @ ?sid @ ''.out'')"
  show ?thesis
  proof (cases "os_path_exists fs ?vc")
    case True
    with Some assms have "examine a ?vc ?sid ?log n fs = (evs, fs', r)"
      by (simp add: visit_def Let_def)
    from examine_spawned[OF this] show ?thesis .
  next
    case False
    obtain fs1 res where mk: "os_mkdir (raced ?vc) fs ?vc = (fs1, res)"
      by (cases "os_mkdir (raced ?vc) fs ?vc")
    show ?thesis
    proof (cases res)
      case None
      obtain evs1 fs2 r1 where ex: "examine a ?vc ?sid ?log n fs1 = (evs1, fs2, r1)"
        by (cases "examine a ?vc ?sid ?log n fs1") auto
      with Some False mk None assms have "evs = Mkdir ?vc # evs1" and r: "r = r1"
        by (auto simp: visit_def Let_def)
      then have "spawned evs = spawned evs1" by (simp add: spawned_def)
      with examine_spawned[OF ex] r show ?thesis by (auto split: sum.splits)
    next
      case (Some e)
      with \<open>logfolder a = Some lf\<close> False mk assms show ?thesis
        by (auto simp: visit_def Let_def spawned_def split: if_splits)
    qed
  qed
qed

lemma spawned_append: "spawned (xs @ ys) = spawned xs + spawned ys"
  by (simp add: spawned_def)

lemma dispatch_spawned:
  "int (spawned (fst (dispatch a raced ds n fs))) \<le> max 1 (number a - n)"
proof (induction ds arbitrary: n fs)
  case Nil
  then show ?case by (simp add: spawned_def)
next
  case (Cons d ds)
  obtain evs fs' r where v: "visit a raced d n fs = (evs, fs', r)"
    by (cases "visit a raced d n fs") auto
  note vs = visit_spawned[OF v]
  show ?case
  proof (cases r)
    case (Inl e)
    with v vs show ?thesis by simp
  next
    case (Inr n')
    obtain evs' r' where d: "dispatch a raced ds n' fs' = (evs', r')"
      by (cases "dispatch a raced ds n' fs'") auto
    from Cons.IH[of n' fs'] d have ih: "int (spawned evs') \<le> max 1 (number a - n')" by simp
    from v Inr d have "fst (dispatch a raced (d # ds) n fs) = evs @ evs'" by simp
    moreover from vs Inr ih have "int (spawned evs) + int (spawned evs') \<le> max 1 (number a - n)"
      by auto
    ultimately show ?thesis by (simp add: spawned_append)
  qed
qed

lemma multi10x_spawned:
  "int (spawned (fst (multi10x a raced fs))) \<le> max 1 (number a)"
proof -
  obtain evs r where d: "dispatch a raced (sort (all_10X_dirs fs)) 0 fs = (evs, r)"
    by (cases "dispatch a raced (sort (all_10X_dirs fs)) 0 fs") auto
  from dispatch_spawned[of a raced "sort (all_10X_dirs fs)" 0 fs] d
  show ?thesis by (simp add: multi10x_def spawned_def)
qed

subsection \<open>The candidate directories\<close>

text \<open>
  C5. The claim is that the dispatcher examines the subdirectories of the parent folder
  it is given that match the naming pattern. The code never reads \<^verbatim>\<open>parentfolder\<close>
  (\<open>parentfolder_ignored\<close>): it lists \<^verbatim>\<open>/data/proj/chromium/10X*\<close>. Sent to
  \<^verbatim>\<open>/work/samples\<close>, which holds the sample \<^verbatim>\<open>10X_01\<close>, it examines the two samples of
  the laboratory's directory and starts a worker for one of them, and none for \<^verbatim>\<open>10X_01\<close>.
\<close>

theorem candidates_not_under_parentfolder:
  "parentfolder batch_args = ''/work/samples''
   \<and> children lab_fs (parentfolder batch_args) = [''10X_01'']
   \<and> sort (all_10X_dirs lab_fs) = [''/data/proj/chromium/10X_05'', ''/data/proj/chromium/10X_07'']
   \<and> filter is_popen (fst (multi10x batch_args (\<lambda>d. False) lab_fs))
       = [Popen [''nohup'', ''velocyto'', ''run10x'', ''/data/proj/chromium/10X_07'', ''/ref/ivls.txt'']
            ''/logs/nohup_10X_07.out'']"
  by (simp add: dispatch_defs py_defs lab_fs_def batch_args_def)

subsection \<open>The number of workers\<close>

text \<open>
  C6. The claim is that an invocation never spawns more workers than the cap. The code
  counts a worker after it has spawned it and only then compares the count with the cap
  (\<open>multi10x_spawned\<close>: at most \<open>max 1 number\<close> workers). With the cap 0 and one sample
  to run it spawns one worker.
\<close>

theorem zero_cap_spawns_one:
  "number zero_cap_args = 0
   \<and> spawned (fst (multi10x zero_cap_args (\<lambda>d. False) lab_fs)) = 1
   \<and> snd (snd (multi10x zero_cap_args (\<lambda>d. False) lab_fs)) = Some (SystemExit 0)"
  by (simp add: dispatch_defs py_defs lab_fs_def batch_args_def zero_cap_args_def)

end
